theory Spec2Isabelle
  imports Complex_Main
begin

section \<open>Values shared by the receipt engine\<close>

text \<open>
  JavaScript numbers that carry money are modelled as exact rationals: the decimal value a
  literal denotes, without IEEE rounding. A nullable number is a \<open>rat option\<close>, a nullable
  string a \<open>string option\<close>, with \<open>None\<close> for \<open>null\<close>.

  A date is the normalised \<open>YYYY-MM-DD\<close> string the engine stores. It is kept as its three
  numeric fields: two normalised strings are equal exactly when the fields are, and the
  whole-day difference dayjs computes between two such dates is the difference of their
  day numbers.
\<close>

datatype iso_date = IsoDate (year: int) (month: int) (day: int)

definition days_from_civil :: "iso_date \<Rightarrow> int" where
  "days_from_civil dt =
     (let y = (if month dt \<le> 2 then year dt - 1 else year dt);
          era = y div 400;
          yoe = y - era * 400;
          mp = (if month dt > 2 then month dt - 3 else month dt + 9);
          doy = (153 * mp + 2) div 5 + day dt - 1;
          doe = yoe * 365 + yoe div 4 - yoe div 100 + doy
      in era * 146097 + doe - 719468)"

text \<open>\<open>dayjs(a).diff(dayjs(b), 'day')\<close> on two valid dates.\<close>

definition dayjs_diff_days :: "iso_date \<Rightarrow> iso_date \<Rightarrow> int" where
  "dayjs_diff_days a b = days_from_civil a - days_from_civil b"

text \<open>JavaScript truthiness of a nullable string and of a nullable number.\<close>

definition truthy_str :: "string option \<Rightarrow> bool" where
  "truthy_str s = (case s of None \<Rightarrow> False | Some v \<Rightarrow> v \<noteq> [])"

definition truthy_num :: "rat option \<Rightarrow> bool" where
  "truthy_num n = (case n of None \<Rightarrow> False | Some v \<Rightarrow> v \<noteq> 0)"

section \<open>Ledger purchases and receipts\<close>

text \<open>
  A ledger purchase as the matcher reads it: \<open>Id\<close>, \<open>TotalAmt\<close>, \<open>TxnDate\<close> and the optional
  \<open>Credit.CCDetail.CCNumber\<close>.
\<close>

record purchase =
  Id_txn :: string
  TotalAmt :: rat
  TxnDate :: iso_date
  CCNumber :: "string option"

datatype sync_status = pending | matched | synced | error

record vendor_info =
  vendor_id :: "string option"
  vendor_name :: "string option"
  displayName :: "string option"
  qboVendorName :: "string option"
  qboVendorId :: "string option"

record transaction_info =
  date :: "iso_date option"
  total :: "rat option"
  subtotal :: "rat option"
  tax :: "rat option"

record payment_info =
  paymentMethod :: "string option"
  cardLast4 :: "string option"

record job_info =
  job_name :: "string option"
  qboCustomerId :: "string option"

record line_item =
  sku :: "string option"
  description :: "string option"
  quantity :: "rat option"
  unitPrice :: "rat option"
  totalPrice :: "rat option"

record qbo_sync =
  status :: sync_status
  transactionId :: "string option"
  expenseId :: "string option"
  billId :: "string option"
  syncedAt :: "string option"
  sync_error :: "string option"

record category_info =
  category_name :: "string option"
  qboAccountId :: "string option"
  isBillable :: bool

record attachment =
  filename :: "string option"
  attachment_data :: "string option"

record processing_note =
  timestamp :: string
  message :: string

record metadata_info =
  updatedAt :: string
  processingNotes :: "processing_note list"

record receipt =
  receipt_id :: string
  vendor :: vendor_info
  transaction :: transaction_info
  payment :: payment_info
  job :: job_info
  lineItems :: "line_item list"
  qboSync :: qbo_sync
  category :: category_info
  attachments :: "attachment list"
  metadata :: metadata_info

section \<open>Transaction matcher: scoring\<close>

text \<open>
  \<open>Math.abs(txn.TotalAmt - transaction.total)\<close>; a \<open>null\<close> receipt total converts to 0 in
  the subtraction.
\<close>

definition amountDiff :: "purchase \<Rightarrow> receipt \<Rightarrow> rat" where
  "amountDiff txn r =
     \<bar>TotalAmt txn - (case total (transaction r) of None \<Rightarrow> 0 | Some v \<Rightarrow> v)\<bar>"

definition amount_points :: "purchase \<Rightarrow> receipt \<Rightarrow> nat" where
  "amount_points txn r =
     (if amountDiff txn r = 0 then 100
      else if amountDiff txn r < 1 / 10 then 80
      else if amountDiff txn r < 1 then 50
      else if amountDiff txn r < 5 then 20
      else 0)"

text \<open>
  The date branch: strict equality first, else the signed dayjs difference
  \<open>txn.TxnDate - transaction.date\<close> compared with 1. A \<open>null\<close> receipt date gives an invalid
  dayjs value, whose difference is NaN, and \<open>NaN <= 1\<close> is false.
\<close>

definition date_points :: "purchase \<Rightarrow> receipt \<Rightarrow> nat" where
  "date_points txn r =
     (if Some (TxnDate txn) = date (transaction r) then 30
      else (case date (transaction r) of
              None \<Rightarrow> 0
            | Some d \<Rightarrow> if dayjs_diff_days (TxnDate txn) d \<le> 1 then 20 else 0))"

text \<open>\<open>CCNumber.slice(-4)\<close>: the last four characters, or the whole string when shorter.\<close>

definition slice_last4 :: "string \<Rightarrow> string" where
  "slice_last4 s = drop (length s - 4) s"

definition card_points :: "purchase \<Rightarrow> receipt \<Rightarrow> nat" where
  "card_points txn r =
     (case CCNumber txn of
        None \<Rightarrow> 0
      | Some n \<Rightarrow>
          if truthy_str (cardLast4 (payment r)) \<and> n \<noteq> []
          then (if Some (slice_last4 n) = cardLast4 (payment r) then 50 else 0)
          else 0)"

definition txn_score :: "receipt \<Rightarrow> purchase \<Rightarrow> nat" where
  "txn_score r txn = amount_points txn r + date_points txn r + card_points txn r"

text \<open>The \<open>for\<close> loop of \<open>findBestMatch\<close>, carrying \<open>bestMatch\<close> and \<open>bestScore\<close>.\<close>

fun best_loop :: "receipt \<Rightarrow> purchase list \<Rightarrow> purchase option \<times> nat \<Rightarrow> purchase option \<times> nat" where
  "best_loop r [] st = st"
| "best_loop r (txn # txns) (bestMatch, bestScore) =
     (if txn_score r txn > bestScore
      then best_loop r txns (Some txn, txn_score r txn)
      else best_loop r txns (bestMatch, bestScore))"

definition findBestMatch :: "purchase list \<Rightarrow> receipt \<Rightarrow> purchase option" where
  "findBestMatch transactions r =
     (case best_loop r transactions (None, 0) of
        (bestMatch, bestScore) \<Rightarrow> if bestScore \<ge> 80 then bestMatch else None)"

section \<open>Currency parsing\<close>

text \<open>
  \<open>parseFloat\<close> on the decimal literals the parsers hand over: leading white space, an
  optional sign, digits, an optional fraction and an optional exponent; whatever follows
  is ignored. \<open>None\<close> is NaN. The value is the exact decimal, not its nearest double; the
  literal \<open>Infinity\<close> is outside this model.
\<close>

definition is_space :: "char \<Rightarrow> bool" where
  "is_space c = (c \<in> set [CHR '' '', CHR 0x09, CHR 0x0A, CHR 0x0B, CHR 0x0C, CHR 0x0D])"

definition is_digit :: "char \<Rightarrow> bool" where
  "is_digit c = (c \<in> set ''0123456789'')"

definition digit_val :: "char \<Rightarrow> nat" where
  "digit_val c = of_char c - 48"

definition digits_val :: "string \<Rightarrow> nat" where
  "digits_val ds = foldl (\<lambda>a c. 10 * a + digit_val c) 0 ds"

definition exponent_part :: "string \<Rightarrow> (bool \<times> nat) option" where
  "exponent_part s =
     (case s of
        [] \<Rightarrow> None
      | c # r \<Rightarrow>
          if c = CHR ''e'' \<or> c = CHR ''E'' then
            (let neg = (r \<noteq> [] \<and> hd r = CHR ''-'');
                 r' = (if r \<noteq> [] \<and> (hd r = CHR ''-'' \<or> hd r = CHR ''+'') then tl r else r);
                 ds = takeWhile is_digit r'
             in if ds = [] then None else Some (neg, digits_val ds))
          else None)"

definition parseFloat :: "string \<Rightarrow> rat option" where
  "parseFloat s =
     (let s1 = dropWhile is_space s;
          neg = (s1 \<noteq> [] \<and> hd s1 = CHR ''-'');
          s2 = (if s1 \<noteq> [] \<and> (hd s1 = CHR ''-'' \<or> hd s1 = CHR ''+'') then tl s1 else s1);
          ip = takeWhile is_digit s2;
          r1 = dropWhile is_digit s2;
          has_dot = (r1 \<noteq> [] \<and> hd r1 = CHR ''.'');
          fp = (if has_dot then takeWhile is_digit (tl r1) else []);
          r2 = (if has_dot then dropWhile is_digit (tl r1) else r1);
          mant = (of_nat (digits_val ip) + of_nat (digits_val fp) / 10 ^ length fp :: rat);
          v = (case exponent_part r2 of
                 None \<Rightarrow> mant
               | Some (eneg, e) \<Rightarrow> if eneg then mant / 10 ^ e else mant * 10 ^ e)
      in if ip = [] \<and> fp = [] then None else Some (if neg then - v else v))"

text \<open>
  The argument of \<open>parseCurrency\<close>: \<open>null\<close>/\<open>undefined\<close>, a number or a string.
\<close>

datatype js_arg = JsNull | JsNum rat | JsStr string

definition strip_currency :: "string \<Rightarrow> string" where
  "strip_currency s = filter (\<lambda>c. c \<noteq> CHR ''$'' \<and> c \<noteq> CHR '','' \<and> \<not> is_space c) s"

definition parseCurrency :: "js_arg \<Rightarrow> rat option" where
  "parseCurrency a =
     (case a of
        JsNull \<Rightarrow> None
      | JsNum n \<Rightarrow> if n = 0 then None else Some n
      | JsStr s \<Rightarrow> if s = [] then None else parseFloat (strip_currency s))"



section \<open>Receipt model\<close>

text \<open>
  \<open>createReceipt(data)\<close>, restricted to the fields the sync path reads or writes. The
  generated id and the clock reading are arguments. \<open>x || null\<close> keeps a truthy value.
\<close>

definition or_null_str :: "string option \<Rightarrow> string option" where
  "or_null_str s = (if truthy_str s then s else None)"

definition or_null_num :: "rat option \<Rightarrow> rat option" where
  "or_null_num n = (if truthy_num n then n else None)"

record receipt_data =
  d_id :: "string option"
  d_vendorId :: "string option"
  d_vendorName :: "string option"
  d_vendorDisplayName :: "string option"
  d_qboVendorId :: "string option"
  d_date :: "iso_date option"
  d_total :: "rat option"
  d_subtotal :: "rat option"
  d_tax :: "rat option"
  d_paymentMethod :: "string option"
  d_cardLast4 :: "string option"
  d_jobName :: "string option"
  d_qboCustomerId :: "string option"
  d_lineItems :: "line_item list option"
  d_categoryName :: "string option"
  d_qboAccountId :: "string option"
  d_isBillable :: "bool option"

definition createReceipt :: "string \<Rightarrow> string \<Rightarrow> receipt_data \<Rightarrow> receipt" where
  "createReceipt fresh_id now d =
     \<lparr> receipt_id = (case d_id d of
                        None \<Rightarrow> fresh_id
                      | Some i \<Rightarrow> if i = [] then fresh_id else i),
       vendor = \<lparr> vendor_id = or_null_str (d_vendorId d),
                  vendor_name = or_null_str (d_vendorName d),
                  displayName = or_null_str (d_vendorDisplayName d),
                  qboVendorName = None,
                  qboVendorId = or_null_str (d_qboVendorId d) \<rparr>,
       transaction = \<lparr> date = d_date d,
                       total = or_null_num (d_total d),
                       subtotal = or_null_num (d_subtotal d),
                       tax = or_null_num (d_tax d) \<rparr>,
       payment = \<lparr> paymentMethod = or_null_str (d_paymentMethod d),
                   cardLast4 = or_null_str (d_cardLast4 d) \<rparr>,
       job = \<lparr> job_name = or_null_str (d_jobName d),
               qboCustomerId = or_null_str (d_qboCustomerId d) \<rparr>,
       lineItems = (case d_lineItems d of None \<Rightarrow> [] | Some xs \<Rightarrow> xs),
       qboSync = \<lparr> status = pending, transactionId = None, expenseId = None,
                   billId = None, syncedAt = None, sync_error = None \<rparr>,
       category = \<lparr> category_name =
                      (if truthy_str (d_categoryName d) then d_categoryName d
                       else Some ''Materials & Supplies''),
                    qboAccountId = or_null_str (d_qboAccountId d),
                    isBillable = (d_isBillable d \<noteq> Some False) \<rparr>,
       attachments = [],
       metadata = \<lparr> updatedAt = now, processingNotes = [] \<rparr> \<rparr>"

section \<open>Parsed receipts and confidence\<close>

datatype confidence = low | medium | high

text \<open>
  The result object of a parser. Fields a given parser does not set are \<open>None\<close>.
\<close>

record parsed =
  p_total :: "rat option"
  p_subtotal :: "rat option"
  p_tax :: "rat option"
  p_date :: "iso_date option"
  p_orderNumber :: "string option"
  p_invoiceNumber :: "string option"
  p_poNumber :: "string option"
  p_cardLast4 :: "string option"
  p_paymentMethod :: "string option"
  p_accountNumber :: "string option"
  p_jobName :: "string option"
  p_lineItems :: "line_item list"
  p_confidence :: confidence

text \<open>
  \<open>GenericParser.calculateConfidence\<close>. A field counts when it is truthy: a total that is
  neither \<open>null\<close> nor 0, a non-empty string, a non-empty item list.
\<close>

definition confidence_points :: "parsed \<Rightarrow> nat" where
  "confidence_points res =
     (if truthy_num (p_total res) then 2 else 0)
     + (if p_date res \<noteq> None then 2 else 0)
     + (if truthy_str (p_orderNumber res) \<or> truthy_str (p_invoiceNumber res) then 1 else 0)
     + (if truthy_str (p_cardLast4 res) then 1 else 0)
     + (if length (p_lineItems res) > 0 then 1 else 0)"

definition calculateConfidence :: "parsed \<Rightarrow> confidence" where
  "calculateConfidence res =
     (if confidence_points res \<ge> 5 then high
      else if confidence_points res \<ge> 3 then medium
      else low)"

fun confidence_rank :: "confidence \<Rightarrow> nat" where
  "confidence_rank low = 0"
| "confidence_rank medium = 1"
| "confidence_rank high = 2"

text \<open>
  \<open>res'\<close> has every field that \<open>res\<close> has among the five the confidence reads.
\<close>

definition fields_added :: "parsed \<Rightarrow> parsed \<Rightarrow> bool" where
  "fields_added res res' =
     ((truthy_num (p_total res) \<longrightarrow> truthy_num (p_total res'))
      \<and> (p_date res \<noteq> None \<longrightarrow> p_date res' \<noteq> None)
      \<and> (truthy_str (p_orderNumber res) \<or> truthy_str (p_invoiceNumber res)
           \<longrightarrow> truthy_str (p_orderNumber res') \<or> truthy_str (p_invoiceNumber res'))
      \<and> (truthy_str (p_cardLast4 res) \<longrightarrow> truthy_str (p_cardLast4 res'))
      \<and> (p_lineItems res \<noteq> [] \<longrightarrow> p_lineItems res' \<noteq> []))"

text \<open>The object every parser starts from, with the generic parser's initial label.\<close>

definition empty_result :: parsed where
  "empty_result =
     \<lparr> p_total = None, p_subtotal = None, p_tax = None, p_date = None,
       p_orderNumber = None, p_invoiceNumber = None, p_poNumber = None,
       p_cardLast4 = None, p_paymentMethod = None, p_accountNumber = None,
       p_jobName = None, p_lineItems = [], p_confidence = low \<rparr>"

section \<open>Text scanning\<close>

text \<open>
  The parsers read text through regular expressions and dayjs. The regular expression
  engine and the date reader are arguments of the model: \<open>rx_match rx text\<close> is the first
  capture group of \<open>text.match(rx)\<close>, \<open>None\<close> when there is no match. The helper scans that
  are a single regular expression over the text are arguments as well. The patterns
  themselves are values of an arbitrary type \<open>'rx\<close>.
\<close>

record 'rx extractors =
  ex_total :: "'rx option"
  ex_date :: "'rx option"
  ex_orderNumber :: "'rx option"
  ex_invoiceNumber :: "'rx option"
  ex_cardLast4 :: "'rx option"

record 'rx vendor_profile =
  vendorId :: string
  profile_name :: string
  v_extractors :: "'rx extractors option"

datatype alpha_row =
    RowFull string string string string string
  | RowQty string string string
  | RowSimple string string

record 'rx text_ops =
  rx_match :: "'rx \<Rightarrow> string \<Rightarrow> string option"
  parseDate :: "string \<Rightarrow> iso_date option"
  amount_tokens :: "string \<Rightarrow> string list"
  date_tokens :: "string \<Rightarrow> string list"
  extractCardLast4 :: "string \<Rightarrow> string option"
  detectPaymentMethod :: "string \<Rightarrow> string option"
  extractJobName :: "string \<Rightarrow> string option"
  simple_line :: "string \<Rightarrow> (string \<times> string) option"
  card_match :: "string \<Rightarrow> (string \<times> string) option"
  alpha_line :: "string \<Rightarrow> alpha_row option"
  getDefaultExtractors :: "'rx extractors"
  alpha_totalPatterns :: "'rx list"
  alpha_datePatterns :: "'rx list"
  alpha_subtotal_rx :: "'rx"
  alpha_tax_rx :: "'rx"
  alpha_invoice_rx :: "'rx"
  alpha_po_rx :: "'rx"
  alpha_account_rx :: "'rx"

text \<open>\<open>text.split('\n')\<close>, \<open>trim\<close>, \<open>toUpperCase\<close> and a case-insensitive prefix test.\<close>

fun split_lines_acc :: "string \<Rightarrow> string \<Rightarrow> string list" where
  "split_lines_acc cur [] = [rev cur]"
| "split_lines_acc cur (c # cs) =
     (if c = CHR 0x0A then rev cur # split_lines_acc [] cs
      else split_lines_acc (c # cur) cs)"

definition split_lines :: "string \<Rightarrow> string list" where
  "split_lines s = split_lines_acc [] s"

definition trim :: "string \<Rightarrow> string" where
  "trim s = rev (dropWhile is_space (rev (dropWhile is_space s)))"

definition to_lower :: "char \<Rightarrow> char" where
  "to_lower c =
     (if (65::nat) \<le> of_char c \<and> (of_char c :: nat) \<le> 90
      then char_of (of_char c + (32::nat)) else c)"

definition to_upper :: "char \<Rightarrow> char" where
  "to_upper c =
     (if (97::nat) \<le> of_char c \<and> (of_char c :: nat) \<le> 122
      then char_of (of_char c - (32::nat)) else c)"

definition starts_with_ci :: "string \<Rightarrow> string \<Rightarrow> bool" where
  "starts_with_ci p s = (take (length p) (map to_lower s) = p)"

text \<open>The test \<open>/^(total|subtotal|tax|shipping|discount)/i\<close> of the generic parser.\<close>

definition is_summary_line :: "string \<Rightarrow> bool" where
  "is_summary_line d =
     (\<exists>p \<in> set [''total'', ''subtotal'', ''tax'', ''shipping'', ''discount''].
        starts_with_ci p d)"

section \<open>Generic parser\<close>

definition extractLargestAmount :: "'rx text_ops \<Rightarrow> string \<Rightarrow> rat option" where
  "extractLargestAmount ops text =
     (let amounts = concat (map (\<lambda>tok. case parseCurrency (JsStr tok) of
                                          None \<Rightarrow> []
                                        | Some a \<Rightarrow> if a > 0 then [a] else [])
                                (amount_tokens ops text))
      in case amounts of [] \<Rightarrow> None | a # as \<Rightarrow> Some (fold max as a))"

text \<open>
  The dates are sorted latest first and the head is returned, that is the latest one.
\<close>

definition extractMostRecentDate :: "'rx text_ops \<Rightarrow> string \<Rightarrow> iso_date option" where
  "extractMostRecentDate ops text =
     (let dates = concat (map (\<lambda>tok. case parseDate ops tok of
                                        None \<Rightarrow> [] | Some d \<Rightarrow> [d])
                              (date_tokens ops text))
      in case dates of
           [] \<Rightarrow> None
         | d # ds \<Rightarrow>
             Some (fold (\<lambda>x best. if days_from_civil x > days_from_civil best then x else best)
                        ds d))"

definition extractLineItems :: "'rx text_ops \<Rightarrow> string \<Rightarrow> line_item list" where
  "extractLineItems ops text =
     take 50 (concat (map
       (\<lambda>line. case simple_line ops line of
                  None \<Rightarrow> []
                | Some (g1, g2) \<Rightarrow>
                    if \<not> is_summary_line (trim g1)
                    then [\<lparr> sku = None, description = Some (trim g1), quantity = Some 1,
                            unitPrice = None, totalPrice = parseCurrency (JsStr g2) \<rparr>]
                    else [])
       (split_lines text)))"

definition match_field :: "'rx text_ops \<Rightarrow> 'rx option \<Rightarrow> string \<Rightarrow> string option" where
  "match_field ops rx text = (case rx of None \<Rightarrow> None | Some p \<Rightarrow> rx_match ops p text)"

text \<open>
  \<open>GenericParser.parse(text, sourceType, vendor)\<close>. The result is returned only when both
  the total and the date are truthy.
\<close>

definition generic_fields :: "'rx text_ops \<Rightarrow> string \<Rightarrow> 'rx vendor_profile option \<Rightarrow> parsed" where
  "generic_fields ops text vnd =
     (let exs = (case vnd of
                   None \<Rightarrow> getDefaultExtractors ops
                 | Some v \<Rightarrow> (case v_extractors v of
                               None \<Rightarrow> getDefaultExtractors ops
                             | Some e \<Rightarrow> e));
          total0 = (case match_field ops (ex_total exs) text of
                      None \<Rightarrow> None | Some g \<Rightarrow> parseCurrency (JsStr g));
          total1 = (if \<not> truthy_num total0 then extractLargestAmount ops text else total0);
          date0 = (case match_field ops (ex_date exs) text of
                     None \<Rightarrow> None | Some g \<Rightarrow> parseDate ops g);
          date1 = (if date0 = None then extractMostRecentDate ops text else date0);
          card0 = match_field ops (ex_cardLast4 exs) text;
          card1 = (if \<not> truthy_str card0 then extractCardLast4 ops text else card0);
          res = empty_result
                  \<lparr> p_total := total1, p_date := date1,
                    p_orderNumber := match_field ops (ex_orderNumber exs) text,
                    p_invoiceNumber := match_field ops (ex_invoiceNumber exs) text,
                    p_cardLast4 := card1,
                    p_paymentMethod := detectPaymentMethod ops text,
                    p_jobName := extractJobName ops text,
                    p_lineItems := extractLineItems ops text \<rparr>
      in res \<lparr> p_confidence := calculateConfidence res \<rparr>)"

definition generic_parse :: "'rx text_ops \<Rightarrow> string \<Rightarrow> 'rx vendor_profile option \<Rightarrow> parsed option" where
  "generic_parse ops text vnd =
     (let res = generic_fields ops text vnd
      in if truthy_num (p_total res) \<and> p_date res \<noteq> None then Some res else None)"

section \<open>Alpha Supply parser\<close>

text \<open>
  A cascade \<open>for (const pattern of patterns) { ...; if (value) break; }\<close>: the value of the
  last pattern tried that matched, stopping at the first truthy one.
\<close>

fun total_cascade :: "'rx text_ops \<Rightarrow> 'rx list \<Rightarrow> string \<Rightarrow> rat option \<Rightarrow> rat option" where
  "total_cascade ops [] text cur = cur"
| "total_cascade ops (p # ps) text cur =
     (case rx_match ops p text of
        None \<Rightarrow> total_cascade ops ps text cur
      | Some g \<Rightarrow>
          (let v = parseCurrency (JsStr g)
           in if truthy_num v then v else total_cascade ops ps text v))"

fun date_cascade :: "'rx text_ops \<Rightarrow> 'rx list \<Rightarrow> string \<Rightarrow> iso_date option \<Rightarrow> iso_date option" where
  "date_cascade ops [] text cur = cur"
| "date_cascade ops (p # ps) text cur =
     (case rx_match ops p text of
        None \<Rightarrow> date_cascade ops ps text cur
      | Some g \<Rightarrow>
          (let v = parseDate ops g
           in if v \<noteq> None then v else date_cascade ops ps text v))"

definition alpha_item :: "alpha_row \<Rightarrow> line_item list" where
  "alpha_item row =
     (case row of
        RowFull g1 g2 g3 g4 g5 \<Rightarrow>
          [\<lparr> sku = Some (trim g1), description = Some (trim g2),
             quantity = Some (of_nat (digits_val g3)),
             unitPrice = parseCurrency (JsStr g4), totalPrice = parseCurrency (JsStr g5) \<rparr>]
      | RowQty g1 g2 g3 \<Rightarrow>
          [\<lparr> sku = None, description = Some (trim g1),
             quantity = Some (of_nat (digits_val g2)),
             unitPrice = None, totalPrice = parseCurrency (JsStr g3) \<rparr>]
      | RowSimple g1 g2 \<Rightarrow>
          if \<not> is_summary_line (trim g1)
          then [\<lparr> sku = None, description = Some (trim g1), quantity = Some 1,
                  unitPrice = None, totalPrice = parseCurrency (JsStr g2) \<rparr>]
          else [])"

definition alpha_extractLineItems :: "'rx text_ops \<Rightarrow> string \<Rightarrow> line_item list" where
  "alpha_extractLineItems ops text =
     take 50 (concat (map
       (\<lambda>line. case alpha_line ops line of None \<Rightarrow> [] | Some row \<Rightarrow> alpha_item row)
       (split_lines text)))"

definition alpha_confidence :: "parsed \<Rightarrow> confidence" where
  "alpha_confidence res =
     (if truthy_num (p_total res) \<and> p_date res \<noteq> None
         \<and> (truthy_str (p_invoiceNumber res) \<or> truthy_str (p_poNumber res)) then high
      else if truthy_num (p_total res) \<and> p_date res \<noteq> None then medium
      else low)"

definition alpha_fields :: "'rx text_ops \<Rightarrow> string \<Rightarrow> parsed" where
  "alpha_fields ops text =
     (let card = card_match ops text;
          res = empty_result
                  \<lparr> p_total := total_cascade ops (alpha_totalPatterns ops) text None,
                    p_subtotal := (case rx_match ops (alpha_subtotal_rx ops) text of
                                     None \<Rightarrow> None | Some g \<Rightarrow> parseCurrency (JsStr g)),
                    p_tax := (case rx_match ops (alpha_tax_rx ops) text of
                                None \<Rightarrow> None | Some g \<Rightarrow> parseCurrency (JsStr g)),
                    p_date := date_cascade ops (alpha_datePatterns ops) text None,
                    p_invoiceNumber := rx_match ops (alpha_invoice_rx ops) text,
                    p_poNumber := rx_match ops (alpha_po_rx ops) text,
                    p_cardLast4 := map_option snd card,
                    p_paymentMethod := map_option (\<lambda>c. map to_upper (fst c)) card,
                    p_accountNumber := rx_match ops (alpha_account_rx ops) text,
                    p_lineItems := alpha_extractLineItems ops text \<rparr>
      in res \<lparr> p_confidence := alpha_confidence res \<rparr>)"

text \<open>
  \<open>AlphaSupplyParser.parse(text, sourceType)\<close>. The result is returned when the total is
  truthy or there is a line item.
\<close>

definition alpha_parse :: "'rx text_ops \<Rightarrow> string \<Rightarrow> parsed option" where
  "alpha_parse ops text =
     (let res = alpha_fields ops text
      in if truthy_num (p_total res) \<or> length (p_lineItems res) > 0 then Some res else None)"

section \<open>Parser router\<close>





section \<open>Receipt status updates\<close>

text \<open>
  The \<open>details\<close> object of \<open>updateSyncStatus\<close>: the keys the callers pass. \<open>None\<close> is an
  absent key, which leaves the field as it was.
\<close>

record sync_details =
  det_transactionId :: "string option"
  det_expenseId :: "string option"
  det_error :: "string option"

definition no_details :: sync_details where
  "no_details = \<lparr> det_transactionId = None, det_expenseId = None, det_error = None \<rparr>"

definition keep_or :: "string option \<Rightarrow> string option \<Rightarrow> string option" where
  "keep_or new old = (case new of None \<Rightarrow> old | Some v \<Rightarrow> Some v)"

text \<open>
  \<open>updateSyncStatus(receipt, status, details)\<close>. The status is written as given. The clock
  reading \<open>now\<close> is an argument.
\<close>

definition updateSyncStatus :: "string \<Rightarrow> receipt \<Rightarrow> sync_status \<Rightarrow> sync_details \<Rightarrow> receipt" where
  "updateSyncStatus now r st details =
     r \<lparr> qboSync :=
           \<lparr> status = st,
             transactionId = keep_or (det_transactionId details) (transactionId (qboSync r)),
             expenseId = keep_or (det_expenseId details) (expenseId (qboSync r)),
             billId = billId (qboSync r),
             syncedAt = (if st = synced then Some now else syncedAt (qboSync r)),
             sync_error = keep_or (det_error details) (sync_error (qboSync r)) \<rparr>,
         metadata := (metadata r) \<lparr> updatedAt := now \<rparr> \<rparr>"

definition addProcessingNote :: "string \<Rightarrow> receipt \<Rightarrow> string \<Rightarrow> receipt" where
  "addProcessingNote now r msg =
     r \<lparr> metadata :=
           \<lparr> updatedAt = now,
             processingNotes =
               processingNotes (metadata r) @ [\<lparr> timestamp = now, message = msg \<rparr>] \<rparr> \<rparr>"


section \<open>Ledger interface\<close>

text \<open>
  The ledger client. Each call takes the ledger state and returns either the message of
  the error it throws (\<open>Inl\<close>) or its well-formed response (\<open>Inr\<close>), with the next ledger
  state. The state type is arbitrary. The purchase query is determined by the receipt date,
  from which the code computes the three-day bounds of the query string. The body of a
  purchase write is determined by the receipt and, for an update, the matched purchase,
  for a new expense, the credit card account found.
\<close>

record entity =
  Id_ent :: string
  Name_ent :: string

datatype purchase_post =
    NewExpense receipt "entity option"
  | UpdateExisting receipt purchase

record 'l qbo_api =
  queryPurchases :: "iso_date option \<Rightarrow> 'l \<Rightarrow> (string + purchase list) \<times> 'l"
  queryVendor :: "string option \<Rightarrow> 'l \<Rightarrow> (string + entity list) \<times> 'l"
  createVendor :: "string option \<Rightarrow> 'l \<Rightarrow> (string + entity) \<times> 'l"
  queryCustomer :: "string \<Rightarrow> 'l \<Rightarrow> (string + entity list) \<times> 'l"
  createCustomer :: "string \<Rightarrow> 'l \<Rightarrow> (string + entity) \<times> 'l"
  queryAccount :: "string \<Rightarrow> 'l \<Rightarrow> (string + entity list) \<times> 'l"
  queryExpenseAccounts :: "'l \<Rightarrow> (string + entity list) \<times> 'l"
  queryCreditCardAccounts :: "'l \<Rightarrow> (string + entity list) \<times> 'l"
  postPurchase :: "purchase_post \<Rightarrow> 'l \<Rightarrow> (string + purchase) \<times> 'l"

section \<open>Entity resolver\<close>

text \<open>The three \<open>Map\<close> caches of the singleton matcher.\<close>

record caches =
  vendorCache :: "string option \<rightharpoonup> entity"
  customerCache :: "string \<rightharpoonup> entity"
  accountCache :: "string \<rightharpoonup> entity"

definition new_caches :: caches where
  "new_caches = \<lparr> vendorCache = Map.empty, customerCache = Map.empty,
                   accountCache = Map.empty \<rparr>"

definition clearCaches :: "caches \<Rightarrow> caches" where
  "clearCaches c = c \<lparr> vendorCache := Map.empty, customerCache := Map.empty,
                       accountCache := Map.empty \<rparr>"

text \<open>
  \<open>findOrCreateVendor(vendorName)\<close>: cache, then query, then create. Any error of a ledger
  call is caught and the result is \<open>null\<close>.
\<close>

definition findOrCreateVendor ::
  "'l qbo_api \<Rightarrow> string option \<Rightarrow> caches \<times> 'l \<Rightarrow> entity option \<times> caches \<times> 'l" where
  "findOrCreateVendor api vendorName cl =
     (case cl of (c, l) \<Rightarrow>
        (case vendorCache c vendorName of
           Some v \<Rightarrow> (Some v, c, l)
         | None \<Rightarrow>
             (case queryVendor api vendorName l of
                (Inl e, l1) \<Rightarrow> (None, c, l1)
              | (Inr vendors, l1) \<Rightarrow>
                  (case vendors of
                     v # _ \<Rightarrow> (Some v, c \<lparr> vendorCache := (vendorCache c)(vendorName \<mapsto> v) \<rparr>, l1)
                   | [] \<Rightarrow>
                       (case createVendor api vendorName l1 of
                          (Inl e, l2) \<Rightarrow> (None, c, l2)
                        | (Inr v, l2) \<Rightarrow>
                            (Some v, c \<lparr> vendorCache := (vendorCache c)(vendorName \<mapsto> v) \<rparr>, l2))))))"

definition findOrCreateCustomer ::
  "'l qbo_api \<Rightarrow> string option \<Rightarrow> caches \<times> 'l \<Rightarrow> entity option \<times> caches \<times> 'l" where
  "findOrCreateCustomer api jobName cl =
     (case cl of (c, l) \<Rightarrow>
        (case jobName of
           None \<Rightarrow> (None, c, l)
         | Some jn \<Rightarrow>
             if jn = [] then (None, c, l)
             else
               (case customerCache c jn of
                  Some cu \<Rightarrow> (Some cu, c, l)
                | None \<Rightarrow>
                    (case queryCustomer api jn l of
                       (Inl e, l1) \<Rightarrow> (None, c, l1)
                     | (Inr customers, l1) \<Rightarrow>
                         (case customers of
                            cu # _ \<Rightarrow>
                              (Some cu, c \<lparr> customerCache := (customerCache c)(jn \<mapsto> cu) \<rparr>, l1)
                          | [] \<Rightarrow>
                              (case createCustomer api jn l1 of
                                 (Inl e, l2) \<Rightarrow> (None, c, l2)
                               | (Inr cu, l2) \<Rightarrow>
                                   (Some cu,
                                    c \<lparr> customerCache := (customerCache c)(jn \<mapsto> cu) \<rparr>,
                                    l2)))))))"

definition findCustomer ::
  "'l qbo_api \<Rightarrow> string option \<Rightarrow> caches \<times> 'l \<Rightarrow> entity option \<times> caches \<times> 'l" where
  "findCustomer api jobName cl = findOrCreateCustomer api jobName cl"

text \<open>\<open>String.prototype.includes\<close>.\<close>

fun includes_str :: "string \<Rightarrow> string \<Rightarrow> bool" where
  "includes_str [] p = (p = [])"
| "includes_str (c # cs) p = (take (length p) (c # cs) = p \<or> includes_str cs p)"

definition account_keyword :: "entity \<Rightarrow> bool" where
  "account_keyword a =
     (let nm = map to_lower (Name_ent a)
      in includes_str nm ''job supplies'' \<or> includes_str nm ''job''
         \<or> includes_str nm ''material'' \<or> includes_str nm ''supplies''
         \<or> includes_str nm ''cost of goods'')"

definition findAccount ::
  "'l qbo_api \<Rightarrow> string option \<Rightarrow> caches \<times> 'l \<Rightarrow> entity option \<times> caches \<times> 'l" where
  "findAccount api categoryName cl =
     (case cl of (c, l) \<Rightarrow>
        (let searchName = (case categoryName of
                             None \<Rightarrow> ''Job Supplies''
                           | Some cn \<Rightarrow> if cn = [] then ''Job Supplies'' else cn)
         in case accountCache c searchName of
              Some a \<Rightarrow> (Some a, c, l)
            | None \<Rightarrow>
                (case queryAccount api searchName l of
                   (Inl e, l1) \<Rightarrow> (None, c, l1)
                 | (Inr accounts, l1) \<Rightarrow>
                     (case accounts of
                        a # _ \<Rightarrow>
                          (Some a, c \<lparr> accountCache := (accountCache c)(searchName \<mapsto> a) \<rparr>, l1)
                      | [] \<Rightarrow>
                          (case queryExpenseAccounts api l1 of
                             (Inl e, l2) \<Rightarrow> (None, c, l2)
                           | (Inr allAccounts, l2) \<Rightarrow>
                               (case find account_keyword allAccounts of
                                  Some a \<Rightarrow>
                                    (Some a,
                                     c \<lparr> accountCache := (accountCache c)(searchName \<mapsto> a) \<rparr>,
                                     l2)
                                | None \<Rightarrow>
                                    (case allAccounts of
                                       a # _ \<Rightarrow>
                                         (Some a,
                                          c \<lparr> accountCache :=
                                                (accountCache c)(searchName \<mapsto> a) \<rparr>,
                                          l2)
                                     | [] \<Rightarrow> (None, c, l2))))))))"

definition findCreditCardAccount :: "'l qbo_api \<Rightarrow> 'l \<Rightarrow> entity option \<times> 'l" where
  "findCreditCardAccount api l =
     (case queryCreditCardAccounts api l of
        (Inl e, l1) \<Rightarrow> (None, l1)
      | (Inr accounts, l1) \<Rightarrow> (case accounts of a # _ \<Rightarrow> (Some a, l1) | [] \<Rightarrow> (None, l1)))"

section \<open>Transaction matcher: ledger query\<close>

text \<open>
  \<open>findMatchingTransaction(receipt)\<close>: the whole body is inside \<open>try\<close>, and the handler
  returns \<open>null\<close>.
\<close>

definition findMatchingTransaction :: "'l qbo_api \<Rightarrow> receipt \<Rightarrow> 'l \<Rightarrow> purchase option \<times> 'l" where
  "findMatchingTransaction api r l =
     (case queryPurchases api (date (transaction r)) l of
        (Inl e, l1) \<Rightarrow> (None, l1)
      | (Inr purchases, l1) \<Rightarrow> (findBestMatch purchases r, l1))"

section \<open>Sync orchestrator\<close>

text \<open>\<open>a || b\<close> on nullable strings.\<close>

definition or_else :: "string option \<Rightarrow> string option \<Rightarrow> string option" where
  "or_else a b = (if truthy_str a then a else b)"

definition createExpense :: "'l qbo_api \<Rightarrow> receipt \<Rightarrow> 'l \<Rightarrow> (string + purchase) \<times> 'l" where
  "createExpense api r l =
     (case findCreditCardAccount api l of
        (ccAccount, l1) \<Rightarrow> postPurchase api (NewExpense r ccAccount) l1)"

definition updateTransaction ::
  "'l qbo_api \<Rightarrow> receipt \<Rightarrow> purchase \<Rightarrow> 'l \<Rightarrow> (string + purchase) \<times> 'l" where
  "updateTransaction api r txn l = postPurchase api (UpdateExisting r txn) l"

text \<open>
  \<open>uploadAttachment(receipt)\<close>: a note is added when the first attachment has data and
  the receipt has an expense or bill id.
\<close>

definition uploadAttachment :: "string \<Rightarrow> receipt \<Rightarrow> receipt" where
  "uploadAttachment now r =
     (case attachments r of
        [] \<Rightarrow> r
      | a # _ \<Rightarrow>
          if \<not> truthy_str (attachment_data a) then r
          else if \<not> truthy_str (or_else (expenseId (qboSync r)) (billId (qboSync r))) then r
          else addProcessingNote now r
                 (''Attachment '' @ (case filename a of None \<Rightarrow> ''null'' | Some f \<Rightarrow> f)
                  @ '' ready for upload''))"

text \<open>
  The first part of \<open>syncReceipt\<close>: vendor, customer and account are resolved and their
  ids written on the receipt when found.
\<close>

definition resolve_entities ::
  "'l qbo_api \<Rightarrow> receipt \<Rightarrow> caches \<times> 'l \<Rightarrow> receipt \<times> caches \<times> 'l" where
  "resolve_entities api r cl =
     (let vendorName = or_else (qboVendorName (vendor r))
                         (or_else (displayName (vendor r)) (vendor_name (vendor r)))
      in case findOrCreateVendor api vendorName cl of
           (v, c1, l1) \<Rightarrow>
             (let r1 = (case v of
                          None \<Rightarrow> r
                        | Some ve \<Rightarrow> r \<lparr> vendor := (vendor r) \<lparr> qboVendorId := Some (Id_ent ve) \<rparr> \<rparr>)
              in case (if truthy_str (job_name (job r1))
                       then findCustomer api (job_name (job r1)) (c1, l1)
                       else (None, c1, l1)) of
                   (cu, c2, l2) \<Rightarrow>
                     (let r2 = (case cu of
                                  None \<Rightarrow> r1
                                | Some cust \<Rightarrow>
                                    r1 \<lparr> job := (job r1) \<lparr> qboCustomerId := Some (Id_ent cust) \<rparr> \<rparr>)
                      in case findAccount api (category_name (category r2)) (c2, l2) of
                           (a, c3, l3) \<Rightarrow>
                             (let r3 = (case a of
                                          None \<Rightarrow> r2
                                        | Some acc \<Rightarrow>
                                            r2 \<lparr> category :=
                                                   (category r2)
                                                     \<lparr> qboAccountId := Some (Id_ent acc) \<rparr> \<rparr>)
                              in (r3, c3, l3)))))"

text \<open>
  The second part: match, then update the matched purchase or create an expense. The
  result is the thrown error message or the receipt with its new status.
\<close>

definition match_and_write ::
  "'l qbo_api \<Rightarrow> string \<Rightarrow> receipt \<Rightarrow> 'l \<Rightarrow> (string + receipt) \<times> 'l" where
  "match_and_write api now r l =
     (case findMatchingTransaction api r l of
        (Some matchingTxn, l1) \<Rightarrow>
          (case updateTransaction api r matchingTxn l1 of
             (Inl e, l2) \<Rightarrow> (Inl e, l2)
           | (Inr p, l2) \<Rightarrow>
               (Inr (addProcessingNote now
                       (updateSyncStatus now r matched
                          (no_details \<lparr> det_transactionId := Some (Id_txn matchingTxn) \<rparr>))
                       (''Matched to existing transaction #'' @ Id_txn matchingTxn)),
                l2))
      | (None, l1) \<Rightarrow>
          (case createExpense api r l1 of
             (Inl e, l2) \<Rightarrow> (Inl e, l2)
           | (Inr expense, l2) \<Rightarrow>
               (Inr (addProcessingNote now
                       (updateSyncStatus now r synced
                          (no_details \<lparr> det_expenseId := Some (Id_txn expense) \<rparr>))
                       (''Created new expense #'' @ Id_txn expense)),
                l2)))"

text \<open>
  \<open>syncReceipt(receipt)\<close>. The first component is \<open>Inl message\<close> when the call throws and
  \<open>Inr ()\<close> when it returns; the second is the receipt object as the call leaves it.
\<close>

definition syncReceipt ::
  "'l qbo_api \<Rightarrow> string \<Rightarrow> receipt \<Rightarrow> caches \<times> 'l \<Rightarrow> (string + unit) \<times> receipt \<times> caches \<times> 'l" where
  "syncReceipt api now r cl =
     (case resolve_entities api r cl of
        (r3, c3, l3) \<Rightarrow>
          (case match_and_write api now r3 l3 of
             (Inl e, l4) \<Rightarrow>
               (Inl e, updateSyncStatus now r3 error (no_details \<lparr> det_error := Some e \<rparr>), c3, l4)
           | (Inr r4, l4) \<Rightarrow>
               (Inr (),
                (if length (attachments r4) > 0 then uploadAttachment now r4 else r4),
                c3, l4)))"

section \<open>Pipeline run\<close>

record scheduler =
  isRunning :: bool
  totalRuns :: nat
  totalProcessed :: nat
  totalSynced :: nat
  totalErrors :: nat

definition new_scheduler :: scheduler where
  "new_scheduler = \<lparr> isRunning = False, totalRuns = 0, totalProcessed = 0,
                      totalSynced = 0, totalErrors = 0 \<rparr>"

text \<open>
  What the mail side hands to one run: the two authentication results and the outcome
  of \<open>processNewEmails\<close>, each of which may throw.
\<close>

record run_input =
  gmailAuth :: "string + bool"
  qboAuth :: "string + bool"
  newReceipts :: "string + receipt list"

text \<open>Step 3 of the run: the loop over the receipts, each sync in its own \<open>try\<close>.\<close>

fun sync_loop ::
  "'l qbo_api \<Rightarrow> string \<Rightarrow> receipt list \<Rightarrow> scheduler \<times> caches \<times> 'l \<times> receipt list
     \<Rightarrow> scheduler \<times> caches \<times> 'l \<times> receipt list" where
  "sync_loop api now [] st = st"
| "sync_loop api now (r # rs) (sch, c, l, acc) =
     (case syncReceipt api now r (c, l) of
        (Inr u, r', c', l') \<Rightarrow>
          sync_loop api now rs (sch \<lparr> totalSynced := totalSynced sch + 1 \<rparr>, c', l', acc @ [r'])
      | (Inl e, r', c', l') \<Rightarrow>
          sync_loop api now rs (sch \<lparr> totalErrors := totalErrors sch + 1 \<rparr>, c', l', acc @ [r']))"

text \<open>
  \<open>runPipeline()\<close>. The result carries the scheduler, the matcher's caches, the ledger and
  the receipts as the run leaves them. No step of the run touches the caches other than
  through the resolver.
\<close>

definition runPipeline ::
  "'l qbo_api \<Rightarrow> string \<Rightarrow> run_input \<Rightarrow> scheduler \<times> caches \<times> 'l
     \<Rightarrow> scheduler \<times> caches \<times> 'l \<times> receipt list" where
  "runPipeline api now inp st =
     (case st of (sch, c, l) \<Rightarrow>
        if isRunning sch then (sch, c, l, [])
        else
          (let sch1 = sch \<lparr> isRunning := True, totalRuns := totalRuns sch + 1 \<rparr>;
               failed = (sch1 \<lparr> totalErrors := totalErrors sch1 + 1, isRunning := False \<rparr>,
                         c, l, []);
               stopped = (sch1 \<lparr> isRunning := False \<rparr>, c, l, [])
           in case gmailAuth inp of
                Inl e \<Rightarrow> failed
              | Inr ga \<Rightarrow>
                  (case qboAuth inp of
                     Inl e \<Rightarrow> failed
                   | Inr qa \<Rightarrow>
                       if \<not> ga then stopped
                       else if \<not> qa then stopped
                       else
                         (case newReceipts inp of
                            Inl e \<Rightarrow> failed
                          | Inr rs \<Rightarrow>
                              (let sch2 = sch1 \<lparr> totalProcessed :=
                                                   totalProcessed sch1 + length rs \<rparr>
                               in if length rs = 0
                                  then (sch2 \<lparr> isRunning := False \<rparr>, c, l, [])
                                  else
                                    (case sync_loop api now rs (sch2, c, l, []) of
                                       (sch3, c', l', acc) \<Rightarrow>
                                         (sch3 \<lparr> isRunning := False \<rparr>, c', l', acc)))))))"

section \<open>Sample data\<close>

definition no_data :: receipt_data where
  "no_data = \<lparr> d_id = None, d_vendorId = None, d_vendorName = None,
               d_vendorDisplayName = None, d_qboVendorId = None, d_date = None,
               d_total = None, d_subtotal = None, d_tax = None, d_paymentMethod = None,
               d_cardLast4 = None, d_jobName = None, d_qboCustomerId = None,
               d_lineItems = None, d_categoryName = None, d_qboAccountId = None,
               d_isBillable = None \<rparr>"

text \<open>
  A Home Depot receipt of 119.76 dated 2025-11-23 and paid with the card ending in 1234.
\<close>

definition sample_receipt :: receipt where
  "sample_receipt =
     createReceipt ''RLT-SAMPLE-000001'' ''2025-11-24T08:00:00.000Z''
       (no_data \<lparr> d_vendorId := Some ''home-depot'', d_vendorName := Some ''Home Depot'',
                  d_vendorDisplayName := Some ''The Home Depot'',
                  d_date := Some (IsoDate 2025 11 23), d_total := Some (11976 / 100),
                  d_cardLast4 := Some ''1234'' \<rparr>)"

definition txn_exact :: purchase where
  "txn_exact = \<lparr> Id_txn = ''501'', TotalAmt = 11976 / 100, TxnDate = IsoDate 2025 11 23,
                 CCNumber = Some ''XXXXXXXXXXXX1234'' \<rparr>"

definition txn_two_dollars_same_day_same_card :: purchase where
  "txn_two_dollars_same_day_same_card =
     \<lparr> Id_txn = ''502'', TotalAmt = 12176 / 100, TxnDate = IsoDate 2025 11 23,
       CCNumber = Some ''XXXXXXXXXXXX1234'' \<rparr>"

definition txn_two_dollars_only :: purchase where
  "txn_two_dollars_only =
     \<lparr> Id_txn = ''503'', TotalAmt = 12176 / 100, TxnDate = IsoDate 2025 11 26,
       CCNumber = None \<rparr>"

definition txn_three_days_earlier :: purchase where
  "txn_three_days_earlier =
     \<lparr> Id_txn = ''504'', TotalAmt = 50, TxnDate = IsoDate 2025 11 20, CCNumber = None \<rparr>"

definition txn_three_days_later :: purchase where
  "txn_three_days_later =
     \<lparr> Id_txn = ''505'', TotalAmt = 50, TxnDate = IsoDate 2025 11 26, CCNumber = None \<rparr>"



text \<open>
  Two texts, \<open>Total: $119.76\<close> and \<open>Total: $119.76 on 11/23/2025\<close>, and what the source's
  regular expressions and dayjs find in them. Patterns are named by strings: \<open>default.*\<close>
  are the patterns of \<open>getDefaultExtractors\<close>, \<open>ace.*\<close> the extractors of the Ace Hardware
  profile and \<open>alpha.total.n\<close>, \<open>alpha.date.n\<close> the entries of the Alpha Supply cascades.
\<close>

definition text_total_only :: string where
  "text_total_only = ''Total: $119.76''"

definition text_total_dated :: string where
  "text_total_dated = ''Total: $119.76 on 11/23/2025''"

definition sample_ops :: "string text_ops" where
  "sample_ops =
     \<lparr> rx_match = (\<lambda>rx t.
         if (rx = ''default.total'' \<or> rx = ''ace.total'' \<or> rx = ''alpha.total.0'')
            \<and> (t = text_total_only \<or> t = text_total_dated) then Some ''119.76''
         else if (rx = ''ace.date'' \<or> rx = ''alpha.date.2'')
            \<and> t = text_total_dated then Some ''11/23/2025''
         else None),
       parseDate = (\<lambda>s. if s = ''11/23/2025'' then Some (IsoDate 2025 11 23) else None),
       amount_tokens = (\<lambda>t. if t = text_total_only \<or> t = text_total_dated
                              then [''119.76''] else []),
       date_tokens = (\<lambda>t. if t = text_total_dated then [''11/23/2025''] else []),
       extractCardLast4 = (\<lambda>t. if t = text_total_dated then Some ''2025'' else None),
       detectPaymentMethod = (\<lambda>t. None),
       extractJobName = (\<lambda>t. None),
       simple_line = (\<lambda>l. if l = text_total_only then Some (''Total:'', ''119.76'') else None),
       card_match = (\<lambda>t. None),
       alpha_line = (\<lambda>l. if l = text_total_only then Some (RowSimple ''Total:'' ''119.76'')
                           else None),
       getDefaultExtractors =
         \<lparr> ex_total = Some ''default.total'', ex_date = Some ''default.date'',
           ex_orderNumber = Some ''default.orderNumber'',
           ex_invoiceNumber = Some ''default.invoiceNumber'',
           ex_cardLast4 = Some ''default.cardLast4'' \<rparr>,
       alpha_totalPatterns =
         [''alpha.total.0'', ''alpha.total.1'', ''alpha.total.2'', ''alpha.total.3''],
       alpha_datePatterns = [''alpha.date.0'', ''alpha.date.1'', ''alpha.date.2''],
       alpha_subtotal_rx = ''alpha.subtotal'',
       alpha_tax_rx = ''alpha.tax'',
       alpha_invoice_rx = ''alpha.invoice'',
       alpha_po_rx = ''alpha.po'',
       alpha_account_rx = ''alpha.account'' \<rparr>"



definition result_total_only :: parsed where
  "result_total_only = empty_result \<lparr> p_total := Some (11976 / 100) \<rparr>"

definition result_total_date_order :: parsed where
  "result_total_date_order =
     empty_result \<lparr> p_total := Some (11976 / 100), p_date := Some (IsoDate 2025 11 23),
                    p_orderNumber := Some ''WM12345678'' \<rparr>"

text \<open>
  A small ledger whose state is a number: in state 0 every call fails; in state 1 the
  vendor query finds vendor 41 and in state 2 vendor 77; in state 3 only the purchase
  query fails; in state 4 only the vendor calls fail. There are no purchases to match.
\<close>

definition sample_api :: "nat qbo_api" where
  "sample_api =
     \<lparr> queryPurchases = (\<lambda>d n. if n = 0 \<or> n = 3 then (Inl ''Request failed'', n)
                               else (Inr [], n)),
       queryVendor = (\<lambda>vn n. if n = 0 \<or> n = 4 then (Inl ''Request failed'', n)
                             else if n = 2
                             then (Inr [\<lparr> Id_ent = ''77'', Name_ent = ''The Home Depot'' \<rparr>], n)
                             else (Inr [\<lparr> Id_ent = ''41'', Name_ent = ''The Home Depot'' \<rparr>], n)),
       createVendor = (\<lambda>vn n. if n = 0 \<or> n = 4 then (Inl ''Request failed'', n)
                              else (Inr \<lparr> Id_ent = ''90'', Name_ent = ''New Vendor'' \<rparr>, n)),
       queryCustomer = (\<lambda>jn n. if n = 0 then (Inl ''Request failed'', n) else (Inr [], n)),
       createCustomer = (\<lambda>jn n. if n = 0 then (Inl ''Request failed'', n)
                                else (Inr \<lparr> Id_ent = ''80'', Name_ent = jn \<rparr>, n)),
       queryAccount = (\<lambda>sn n. if n = 0 then (Inl ''Request failed'', n)
                              else (Inr [\<lparr> Id_ent = ''12'', Name_ent = ''Materials & Supplies'' \<rparr>],
                                    n)),
       queryExpenseAccounts = (\<lambda>n. if n = 0 then (Inl ''Request failed'', n)
                                   else (Inr [\<lparr> Id_ent = ''12'',
                                                Name_ent = ''Materials & Supplies'' \<rparr>], n)),
       queryCreditCardAccounts = (\<lambda>n. if n = 0 then (Inl ''Request failed'', n)
                                      else (Inr [\<lparr> Id_ent = ''30'', Name_ent = ''Visa'' \<rparr>], n)),
       postPurchase = (\<lambda>p n. if n = 0 then (Inl ''Request failed'', n)
                             else (Inr \<lparr> Id_txn = ''900'', TotalAmt = 11976 / 100,
                                        TxnDate = IsoDate 2025 11 23, CCNumber = None \<rparr>, n)) \<rparr>"

definition sample_now :: string where
  "sample_now = ''2025-11-24T09:00:00.000Z''"

definition sample_run :: run_input where
  "sample_run = \<lparr> gmailAuth = Inr True, qboAuth = Inr True,
                   newReceipts = Inr [sample_receipt] \<rparr>"

section \<open>Cache growth\<close>

text \<open>Every entry of \<open>c\<close> is an entry of \<open>c'\<close>, with the same value.\<close>

definition caches_le :: "caches \<Rightarrow> caches \<Rightarrow> bool" where
  "caches_le c c' =
     (vendorCache c \<subseteq>\<^sub>m vendorCache c'
      \<and> customerCache c \<subseteq>\<^sub>m customerCache c'
      \<and> accountCache c \<subseteq>\<^sub>m accountCache c')"

text \<open>The sample receipt after a sync against the ledger in state 0.\<close>

definition receipt_after_failed_sync :: receipt where
  "receipt_after_failed_sync =
     fst (snd (syncReceipt sample_api sample_now sample_receipt (new_caches, 0)))"

text \<open>The first pipeline run, against the ledger in state 1.\<close>

definition after_first_run :: "scheduler \<times> caches \<times> nat \<times> receipt list" where
  "after_first_run =
     runPipeline sample_api sample_now sample_run (new_scheduler, new_caches, 1)"

text \<open>The second run starts from what the first left, with the ledger now in state 2.\<close>

definition after_second_run :: "scheduler \<times> caches \<times> nat \<times> receipt list" where
  "after_second_run =
     runPipeline sample_api sample_now sample_run
       (fst after_first_run, fst (snd after_first_run), 2)"

text \<open>Caches holding one customer entry.\<close>

definition caches_with_customer :: caches where
  "caches_with_customer =
     new_caches \<lparr> customerCache :=
       [''Smith House'' \<mapsto> \<lparr> Id_ent = ''80'', Name_ent = ''Smith House'' \<rparr>] \<rparr>"

section \<open>Properties of the matcher\<close>

lemmas score_defs =
  txn_score_def amount_points_def amountDiff_def date_points_def card_points_def
  slice_last4_def truthy_str_def truthy_num_def dayjs_diff_days_def days_from_civil_def

lemmas sample_defs =
  sample_receipt_def createReceipt_def no_data_def or_null_num_def or_null_str_def
  txn_exact_def txn_two_dollars_same_day_same_card_def txn_two_dollars_only_def
  txn_three_days_earlier_def txn_three_days_later_def










lemma date_points_cases:
  "date_points t r =
     (if date (transaction r) = Some (TxnDate t) then 30
      else if \<exists>d. date (transaction r) = Some d \<and> dayjs_diff_days (TxnDate t) d \<le> 1 then 20
      else 0)"
  by (auto simp: date_points_def split: option.splits)








text \<open>
  Claim C2 at a candidate dated three days before the receipt: the signed difference is
  -3, which is at most 1, so the candidate earns 20 date points, while a candidate three
  days after the receipt earns none.
\<close>

theorem C2_date_points_earlier_candidate:
  "dayjs_diff_days (TxnDate txn_three_days_earlier) (IsoDate 2025 11 23) = - 3
   \<and> date (transaction sample_receipt) = Some (IsoDate 2025 11 23)
   \<and> date_points txn_three_days_earlier sample_receipt = 20
   \<and> date_points txn_three_days_later sample_receipt = 0"
  by (simp add: score_defs sample_defs)

section \<open>Properties of currency parsing\<close>

lemmas parse_defs =
  parseCurrency_def strip_currency_def is_space_def parseFloat_def is_digit_def
  digits_val_def digit_val_def exponent_part_def










section \<open>Properties of the confidence label\<close>

lemma confidence_points_mono:
  "fields_added res res' \<Longrightarrow> confidence_points res \<le> confidence_points res'"
  unfolding fields_added_def confidence_points_def
  by (intro add_mono) auto

lemma calculateConfidence_mono:
  "confidence_points res \<le> confidence_points res'
     \<Longrightarrow> confidence_rank (calculateConfidence res) \<le> confidence_rank (calculateConfidence res')"
  by (simp add: calculateConfidence_def)

lemma confidence_points_empty: "confidence_points empty_result = 0"
  by (simp add: confidence_points_def empty_result_def truthy_num_def truthy_str_def)

text \<open>
  Claim C6. The label is high from 5 points, medium from 3 and low below, where the total
  and the date give 2 points each and a reference number, the card suffix and a line item
  1 point each. A result that has every field of another has a label at least as high; in
  particular the empty result is low and adding any field to it does not lower the label.
\<close>

theorem C6_confidence_scheme:
  "confidence_points res =
       (if truthy_num (p_total res) then 2 else 0)
     + (if p_date res \<noteq> None then 2 else 0)
     + (if truthy_str (p_orderNumber res) \<or> truthy_str (p_invoiceNumber res) then 1 else 0)
     + (if truthy_str (p_cardLast4 res) then 1 else 0)
     + (if p_lineItems res \<noteq> [] then 1 else 0)
   \<and> (calculateConfidence res = high \<longleftrightarrow> 5 \<le> confidence_points res)
   \<and> (calculateConfidence res = medium
        \<longleftrightarrow> 3 \<le> confidence_points res \<and> confidence_points res < 5)
   \<and> (calculateConfidence res = low \<longleftrightarrow> confidence_points res < 3)
   \<and> (fields_added res res'
        \<longrightarrow> confidence_rank (calculateConfidence res)
              \<le> confidence_rank (calculateConfidence res'))
   \<and> calculateConfidence empty_result = low
   \<and> confidence_rank (calculateConfidence empty_result)
        \<le> confidence_rank (calculateConfidence res')"
proof (intro conjI impI)
  show "confidence_points res =
       (if truthy_num (p_total res) then 2 else 0)
     + (if p_date res \<noteq> None then 2 else 0)
     + (if truthy_str (p_orderNumber res) \<or> truthy_str (p_invoiceNumber res) then 1 else 0)
     + (if truthy_str (p_cardLast4 res) then 1 else 0)
     + (if p_lineItems res \<noteq> [] then 1 else 0)"
    by (simp add: confidence_points_def)
  show "calculateConfidence res = high \<longleftrightarrow> 5 \<le> confidence_points res"
    by (simp add: calculateConfidence_def)
  show "calculateConfidence res = medium
        \<longleftrightarrow> 3 \<le> confidence_points res \<and> confidence_points res < 5"
    by (auto simp: calculateConfidence_def)
  show "calculateConfidence res = low \<longleftrightarrow> confidence_points res < 3"
    by (auto simp: calculateConfidence_def)
  show "calculateConfidence empty_result = low"
    by (simp add: calculateConfidence_def confidence_points_empty)
  show "confidence_rank (calculateConfidence empty_result)
        \<le> confidence_rank (calculateConfidence res')"
    by (rule calculateConfidence_mono) (simp add: confidence_points_empty)
next
  assume "fields_added res res'"
  then show "confidence_rank (calculateConfidence res)
              \<le> confidence_rank (calculateConfidence res')"
    by (intro calculateConfidence_mono confidence_points_mono)
qed

text \<open>A result with only a total against one that adds a date and an order number.\<close>

theorem C6_confidence_scheme_witness:
  "fields_added result_total_only result_total_date_order
   \<and> calculateConfidence result_total_only = low
   \<and> calculateConfidence result_total_date_order = high
   \<and> confidence_rank (calculateConfidence result_total_only)
        \<le> confidence_rank (calculateConfidence result_total_date_order)"
proof -
  have f: "fields_added result_total_only result_total_date_order"
    by (simp add: fields_added_def result_total_only_def result_total_date_order_def
        empty_result_def truthy_num_def truthy_str_def)
  have p: "confidence_points result_total_only = 2"
    "confidence_points result_total_date_order = 5"
    by (simp_all add: confidence_points_def result_total_only_def result_total_date_order_def
        empty_result_def truthy_num_def truthy_str_def)
  note t = C6_confidence_scheme[of result_total_only result_total_date_order]
  note t' = C6_confidence_scheme[of result_total_date_order result_total_only]
  have l: "calculateConfidence result_total_only = low" using t p by simp
  have h: "calculateConfidence result_total_date_order = high" using t' p by simp
  have m: "confidence_rank (calculateConfidence result_total_only)
        \<le> confidence_rank (calculateConfidence result_total_date_order)"
    using t f by blast
  show ?thesis using f l h m by simp
qed

section \<open>Properties of the parsers\<close>

lemma generic_parse_None_iff:
  "generic_parse ops text vnd = None \<longleftrightarrow>
     \<not> truthy_num (p_total (generic_fields ops text vnd))
     \<or> p_date (generic_fields ops text vnd) = None"
  by (simp add: generic_parse_def Let_def)

lemma generic_parse_Some:
  "generic_parse ops text vnd = Some res \<Longrightarrow>
     res = generic_fields ops text vnd \<and> truthy_num (p_total res) \<and> p_date res \<noteq> None"
  by (auto simp: generic_parse_def Let_def split: if_splits)

lemma generic_fields_confidence:
  "p_confidence (generic_fields ops text vnd) = calculateConfidence (generic_fields ops text vnd)"
  by (simp add: generic_fields_def Let_def calculateConfidence_def confidence_points_def)

lemma alpha_parse_None_iff:
  "alpha_parse ops text = None \<longleftrightarrow>
     \<not> truthy_num (p_total (alpha_fields ops text)) \<and> p_lineItems (alpha_fields ops text) = []"
  by (simp add: alpha_parse_def Let_def)

lemma alpha_parse_Some:
  "alpha_parse ops text = Some res \<Longrightarrow> res = alpha_fields ops text"
  by (auto simp: alpha_parse_def Let_def split: if_splits)

lemma alpha_fields_confidence:
  "p_confidence (alpha_fields ops text) = alpha_confidence (alpha_fields ops text)"
  by (simp add: alpha_fields_def Let_def alpha_confidence_def)

text \<open>
  Claim C3, as the code has it. The Alpha Supply parser returns nothing exactly when it
  found neither a truthy total nor a line item; a result it returns carries the label of
  its fields, which is low when the total or the date is missing. The generic parser
  returns nothing exactly when the total or the date is missing, whatever line items it
  found; a result it returns carries the point-scheme label.
\<close>

theorem C3_parser_null_rule:
  "(alpha_parse ops text = None \<longleftrightarrow>
      \<not> truthy_num (p_total (alpha_fields ops text))
      \<and> p_lineItems (alpha_fields ops text) = [])
   \<and> (alpha_parse ops text = Some res \<longrightarrow>
        res = alpha_fields ops text \<and> p_confidence res = alpha_confidence res
        \<and> (\<not> truthy_num (p_total res) \<or> p_date res = None \<longrightarrow> p_confidence res = low))
   \<and> (generic_parse ops text vnd = None \<longleftrightarrow>
        \<not> truthy_num (p_total (generic_fields ops text vnd))
        \<or> p_date (generic_fields ops text vnd) = None)
   \<and> (generic_parse ops text vnd = Some res' \<longrightarrow>
        res' = generic_fields ops text vnd \<and> p_confidence res' = calculateConfidence res')"
proof (intro conjI impI)
  show "alpha_parse ops text = None \<longleftrightarrow>
      \<not> truthy_num (p_total (alpha_fields ops text))
      \<and> p_lineItems (alpha_fields ops text) = []"
    by (rule alpha_parse_None_iff)
  show "generic_parse ops text vnd = None \<longleftrightarrow>
        \<not> truthy_num (p_total (generic_fields ops text vnd))
        \<or> p_date (generic_fields ops text vnd) = None"
    by (rule generic_parse_None_iff)
next
  assume a: "alpha_parse ops text = Some res"
  then show r: "res = alpha_fields ops text" by (rule alpha_parse_Some)
  then show c: "p_confidence res = alpha_confidence res"
    by (simp add: alpha_fields_confidence)
  assume "\<not> truthy_num (p_total res) \<or> p_date res = None"
  then show "p_confidence res = low" using c by (auto simp: alpha_confidence_def)
next
  assume g: "generic_parse ops text vnd = Some res'"
  then show r: "res' = generic_fields ops text vnd" using generic_parse_Some by blast
  then show "p_confidence res' = calculateConfidence res'"
    by (simp add: generic_fields_confidence)
qed

lemma sample_ops_simps:
  "rx_match sample_ops rx t =
     (if (rx = ''default.total'' \<or> rx = ''ace.total'' \<or> rx = ''alpha.total.0'')
         \<and> (t = text_total_only \<or> t = text_total_dated) then Some ''119.76''
      else if (rx = ''ace.date'' \<or> rx = ''alpha.date.2'')
         \<and> t = text_total_dated then Some ''11/23/2025''
      else None)"
  "parseDate sample_ops s = (if s = ''11/23/2025'' then Some (IsoDate 2025 11 23) else None)"
  "amount_tokens sample_ops t =
     (if t = text_total_only \<or> t = text_total_dated then [''119.76''] else [])"
  "date_tokens sample_ops t = (if t = text_total_dated then [''11/23/2025''] else [])"
  "extractCardLast4 sample_ops t = (if t = text_total_dated then Some ''2025'' else None)"
  "detectPaymentMethod sample_ops t = None"
  "extractJobName sample_ops t = None"
  "simple_line sample_ops l =
     (if l = text_total_only then Some (''Total:'', ''119.76'') else None)"
  "card_match sample_ops t = None"
  "alpha_line sample_ops l =
     (if l = text_total_only then Some (RowSimple ''Total:'' ''119.76'') else None)"
  "getDefaultExtractors sample_ops =
         \<lparr> ex_total = Some ''default.total'', ex_date = Some ''default.date'',
           ex_orderNumber = Some ''default.orderNumber'',
           ex_invoiceNumber = Some ''default.invoiceNumber'',
           ex_cardLast4 = Some ''default.cardLast4'' \<rparr>"
  "alpha_totalPatterns sample_ops =
         [''alpha.total.0'', ''alpha.total.1'', ''alpha.total.2'', ''alpha.total.3'']"
  "alpha_datePatterns sample_ops = [''alpha.date.0'', ''alpha.date.1'', ''alpha.date.2'']"
  "alpha_subtotal_rx sample_ops = ''alpha.subtotal''"
  "alpha_tax_rx sample_ops = ''alpha.tax''"
  "alpha_invoice_rx sample_ops = ''alpha.invoice''"
  "alpha_po_rx sample_ops = ''alpha.po''"
  "alpha_account_rx sample_ops = ''alpha.account''"
  by (simp_all add: sample_ops_def)

lemma parse_119_76: "parseCurrency (JsStr ''119.76'') = Some (11976 / 100)"
  by (simp add: parse_defs)

lemma summary_Total: "is_summary_line (trim ''Total:'')"
  by code_simp

lemma split_lines_total_only: "split_lines text_total_only = [text_total_only]"
  by (simp add: split_lines_def text_total_only_def)

lemma generic_total_only_total:
  "p_total (generic_fields sample_ops text_total_only None) = Some (11976 / 100)"
  by (simp add: generic_fields_def Let_def match_field_def sample_ops_simps parse_119_76
      truthy_num_def)

lemma generic_total_only_date:
  "p_date (generic_fields sample_ops text_total_only None) = None"
  by (simp add: generic_fields_def Let_def match_field_def sample_ops_simps
      extractMostRecentDate_def text_total_only_def text_total_dated_def)

lemma alpha_total_only_total:
  "p_total (alpha_fields sample_ops text_total_only) = Some (11976 / 100)"
  by (simp add: alpha_fields_def Let_def sample_ops_simps parse_119_76 truthy_num_def)

lemma alpha_total_only_date:
  "p_date (alpha_fields sample_ops text_total_only) = None"
  by (simp add: alpha_fields_def Let_def sample_ops_simps text_total_only_def
      text_total_dated_def)

text \<open>
  On the text \<open>Total: $119.76\<close> the Alpha Supply parser returns its partial result with
  the label low, and the generic parser reads the same total.
\<close>

theorem C3_parser_null_rule_witness:
  "alpha_parse sample_ops text_total_only = Some (alpha_fields sample_ops text_total_only)
   \<and> p_confidence (alpha_fields sample_ops text_total_only) = low
   \<and> generic_parse sample_ops text_total_only None = None"
proof -
  note t = C3_parser_null_rule[of sample_ops text_total_only
      "alpha_fields sample_ops text_total_only" None
      "generic_fields sample_ops text_total_only None"]
  have a: "alpha_parse sample_ops text_total_only \<noteq> None"
    using t alpha_total_only_total by (simp add: truthy_num_def)
  then have a': "alpha_parse sample_ops text_total_only
                  = Some (alpha_fields sample_ops text_total_only)"
    using alpha_parse_Some by fastforce
  have c: "p_confidence (alpha_fields sample_ops text_total_only) = low"
    using t a' alpha_total_only_date by blast
  have g: "generic_parse sample_ops text_total_only None = None"
    using t generic_total_only_date by simp
  show ?thesis using a' c g by simp
qed

text \<open>
  The generic parser extracted the total 119.76 from \<open>Total: $119.76\<close> and still returns
  nothing, because the text has no date.
\<close>

theorem C3_generic_rejects_total_without_date:
  "p_total (generic_fields sample_ops text_total_only None) = Some (11976 / 100)
   \<and> truthy_num (p_total (generic_fields sample_ops text_total_only None))
   \<and> generic_parse sample_ops text_total_only None = None"
  using generic_total_only_total generic_total_only_date
  by (simp add: generic_parse_def Let_def truthy_num_def)

section \<open>Properties of the parser router\<close>



section \<open>Properties of the receipt status\<close>


lemma qboSync_updateSyncStatus:
  "status (qboSync (updateSyncStatus now r st det)) = st"
  "sync_error (qboSync (updateSyncStatus now r st det))
     = keep_or (det_error det) (sync_error (qboSync r))"
  "expenseId (qboSync (updateSyncStatus now r st det))
     = keep_or (det_expenseId det) (expenseId (qboSync r))"
  "transactionId (qboSync (updateSyncStatus now r st det))
     = keep_or (det_transactionId det) (transactionId (qboSync r))"
  by (simp_all add: updateSyncStatus_def)

lemma qboSync_addProcessingNote: "qboSync (addProcessingNote now r m) = qboSync r"
  by (simp add: addProcessingNote_def)


lemma qboSync_uploadAttachment: "qboSync (uploadAttachment now r) = qboSync r"
  by (simp add: uploadAttachment_def qboSync_addProcessingNote split: list.splits)

lemma qboSync_resolve_entities:
  "resolve_entities api r cl = (r3, c3, l3) \<Longrightarrow> qboSync r3 = qboSync r"
  by (auto simp: resolve_entities_def Let_def split: prod.splits option.splits if_splits)

lemma match_and_write_Inr:
  "match_and_write api now r l = (Inr r4, l4) \<Longrightarrow>
     status (qboSync r4) = matched \<or> status (qboSync r4) = synced"
  by (auto simp: match_and_write_def qboSync_addProcessingNote qboSync_updateSyncStatus
      split: prod.splits option.splits sum.splits)

lemma match_and_write_Inl:
  "match_and_write api now r l = (Inl e, l4) \<Longrightarrow> \<exists>p l'. fst (postPurchase api p l') = Inl e"
  by (auto simp: match_and_write_def updateTransaction_def createExpense_def
      split: prod.splits option.splits sum.splits) (metis fst_conv)+

lemma syncReceipt_status:
  assumes "syncReceipt api now r cl = (out, r', cl')"
  shows "status (qboSync r') \<in> {matched, synced, error}
      \<and> ((status (qboSync r') = error) = (\<exists>e. out = Inl e))
      \<and> (\<forall>e. out = Inl e \<longrightarrow> sync_error (qboSync r') = Some e
             \<and> (\<exists>p l'. fst (postPurchase api p l') = Inl e))"
proof -
  obtain r3 c3 l3 where res: "resolve_entities api r cl = (r3, c3, l3)"
    by (cases "resolve_entities api r cl") auto
  obtain w l4 where mw: "match_and_write api now r3 l3 = (w, l4)"
    by (cases "match_and_write api now r3 l3") auto
  show ?thesis
  proof (cases w)
    case (Inl e')
    then show ?thesis
      using assms res mw match_and_write_Inl[of api now r3 l3 e' l4]
      by (auto simp: syncReceipt_def qboSync_updateSyncStatus keep_or_def no_details_def)
  next
    case (Inr r4)
    then have "status (qboSync r4) = matched \<or> status (qboSync r4) = synced"
      using mw match_and_write_Inr[of api now r3 l3 r4 l4] by simp
    then show ?thesis
      using assms res mw Inr
      by (auto simp: syncReceipt_def qboSync_uploadAttachment split: if_splits)
  qed
qed





section \<open>Properties of the entity resolver and the sync\<close>

lemma findOrCreateVendor_query_fails:
  "vendorCache c vn = None \<Longrightarrow> fst (queryVendor api vn l) = Inl e \<Longrightarrow>
     fst (findOrCreateVendor api vn (c, l)) = None
     \<and> fst (snd (findOrCreateVendor api vn (c, l))) = c"
  by (cases "queryVendor api vn l") (simp add: findOrCreateVendor_def)

lemma findOrCreateVendor_create_fails:
  "vendorCache c vn = None \<Longrightarrow> queryVendor api vn l = (Inr [], l1) \<Longrightarrow>
   fst (createVendor api vn l1) = Inl e \<Longrightarrow>
     fst (findOrCreateVendor api vn (c, l)) = None
     \<and> fst (snd (findOrCreateVendor api vn (c, l))) = c"
  by (cases "createVendor api vn l1") (simp add: findOrCreateVendor_def)

lemma findOrCreateCustomer_query_fails:
  "jn \<noteq> [] \<Longrightarrow> customerCache c jn = None \<Longrightarrow> fst (queryCustomer api jn l) = Inl e \<Longrightarrow>
     fst (findOrCreateCustomer api (Some jn) (c, l)) = None
     \<and> fst (snd (findOrCreateCustomer api (Some jn) (c, l))) = c"
  by (cases "queryCustomer api jn l") (simp add: findOrCreateCustomer_def)

lemma findAccount_query_fails:
  "cn \<noteq> [] \<Longrightarrow> accountCache c cn = None \<Longrightarrow> fst (queryAccount api cn l) = Inl e \<Longrightarrow>
     fst (findAccount api (Some cn) (c, l)) = None
     \<and> fst (snd (findAccount api (Some cn) (c, l))) = c"
  by (cases "queryAccount api cn l") (simp add: findAccount_def)

text \<open>
  Claim C5, as the code has it. A failed vendor, customer or account call is caught inside
  the resolver, which returns nothing and caches nothing. \<open>syncReceipt\<close> throws only the
  error of a failed purchase write, and then the receipt is in error with that message.
\<close>

theorem C5_resolver_failures_caught:
  "(vendorCache c vn = None \<and> fst (queryVendor api vn l) = Inl e
      \<longrightarrow> fst (findOrCreateVendor api vn (c, l)) = None
          \<and> fst (snd (findOrCreateVendor api vn (c, l))) = c)
   \<and> (vendorCache c vn = None \<and> queryVendor api vn l = (Inr [], l1)
        \<and> fst (createVendor api vn l1) = Inl e
      \<longrightarrow> fst (findOrCreateVendor api vn (c, l)) = None
          \<and> fst (snd (findOrCreateVendor api vn (c, l))) = c)
   \<and> (jn \<noteq> [] \<and> customerCache c jn = None \<and> fst (queryCustomer api jn l) = Inl e
      \<longrightarrow> fst (findOrCreateCustomer api (Some jn) (c, l)) = None
          \<and> fst (snd (findOrCreateCustomer api (Some jn) (c, l))) = c)
   \<and> (cn \<noteq> [] \<and> accountCache c cn = None \<and> fst (queryAccount api cn l) = Inl e
      \<longrightarrow> fst (findAccount api (Some cn) (c, l)) = None
          \<and> fst (snd (findAccount api (Some cn) (c, l))) = c)
   \<and> (syncReceipt api now r cl = (Inl e', r', cl')
      \<longrightarrow> status (qboSync r') = error \<and> sync_error (qboSync r') = Some e'
          \<and> (\<exists>p l'. fst (postPurchase api p l') = Inl e'))"
proof (intro conjI impI)
  assume "syncReceipt api now r cl = (Inl e', r', cl')"
  from syncReceipt_status[OF this]
  show "status (qboSync r') = error" and "sync_error (qboSync r') = Some e'"
    and "\<exists>p l'. fst (postPurchase api p l') = Inl e'"
    by blast+
qed (simp_all add: findOrCreateVendor_query_fails findOrCreateVendor_create_fails
    findOrCreateCustomer_query_fails findAccount_query_fails)

lemma sample_api_state0:
  "queryVendor sample_api vn 0 = (Inl ''Request failed'', 0)"
  "queryCustomer sample_api jn 0 = (Inl ''Request failed'', 0)"
  "queryAccount sample_api cn 0 = (Inl ''Request failed'', 0)"
  "queryPurchases sample_api d 0 = (Inl ''Request failed'', 0)"
  "postPurchase sample_api p 0 = (Inl ''Request failed'', 0)"
  by (simp_all add: sample_api_def)

lemma sample_api_state3:
  "queryPurchases sample_api d 3 = (Inl ''Request failed'', 3)"
  "createExpense sample_api r 3
     = (Inr \<lparr> Id_txn = ''900'', TotalAmt = 11976 / 100, TxnDate = IsoDate 2025 11 23,
              CCNumber = None \<rparr>, 3)"
  by (simp_all add: sample_api_def createExpense_def findCreditCardAccount_def)

lemma sample_api_state4:
  "queryVendor sample_api vn 4 = (Inl ''Request failed'', 4)"
  by (simp add: sample_api_def)

lemma sync_sample_state0:
  "fst (syncReceipt sample_api sample_now sample_receipt (new_caches, 0))
     = Inl ''Request failed''"
  by code_simp

text \<open>
  With the ledger in state 0 the three resolver calls fail and return nothing, and the
  sync throws the error of the failed expense creation.
\<close>

theorem C5_resolver_failures_caught_witness:
  "fst (findOrCreateVendor sample_api (Some ''The Home Depot'') (new_caches, 0)) = None
   \<and> fst (findOrCreateCustomer sample_api (Some ''Smith House'') (new_caches, 0)) = None
   \<and> fst (findAccount sample_api (Some ''Materials & Supplies'') (new_caches, 0)) = None
   \<and> fst (syncReceipt sample_api sample_now sample_receipt (new_caches, 0))
        = Inl ''Request failed''
   \<and> status (qboSync receipt_after_failed_sync) = error
   \<and> sync_error (qboSync receipt_after_failed_sync) = Some ''Request failed''"
proof -
  let ?s = "syncReceipt sample_api sample_now sample_receipt (new_caches, 0)"
  have e: "?s = (Inl ''Request failed'', receipt_after_failed_sync, snd (snd ?s))"
    using sync_sample_state0 unfolding receipt_after_failed_sync_def
    by (metis prod.collapse)
  have n: "vendorCache new_caches (Some ''The Home Depot'') = None"
    "customerCache new_caches ''Smith House'' = None"
    "accountCache new_caches ''Materials & Supplies'' = None"
    by (simp_all add: new_caches_def)
  note t = C5_resolver_failures_caught[of new_caches "Some ''The Home Depot''" sample_api 0
      "''Request failed''" 0 "''Smith House''" "''Materials & Supplies''" sample_now
      sample_receipt "(new_caches, 0)" "''Request failed''" receipt_after_failed_sync
      "snd (snd ?s)"]
  show ?thesis using t e n sync_sample_state0 by (simp add: sample_api_state0)
qed

text \<open>
  With the ledger in state 4 the vendor query fails, yet the sync returns normally: the
  receipt is synced, carries no error message and has no ledger vendor id.
\<close>

theorem C5_vendor_failure_not_propagated:
  "fst (queryVendor sample_api (Some ''The Home Depot'') 4) = Inl ''Request failed''
   \<and> fst (syncReceipt sample_api sample_now sample_receipt (new_caches, 4)) = Inr ()
   \<and> status (qboSync (fst (snd (syncReceipt sample_api sample_now sample_receipt
                                   (new_caches, 4))))) = synced
   \<and> sync_error (qboSync (fst (snd (syncReceipt sample_api sample_now sample_receipt
                                       (new_caches, 4))))) = None
   \<and> qboVendorId (vendor (fst (snd (syncReceipt sample_api sample_now sample_receipt
                                       (new_caches, 4))))) = None"
proof -
  have a: "fst (syncReceipt sample_api sample_now sample_receipt (new_caches, 4)) = Inr ()"
    by code_simp
  have b: "status (qboSync (fst (snd (syncReceipt sample_api sample_now sample_receipt
                                   (new_caches, 4))))) = synced"
    by code_simp
  have c: "sync_error (qboSync (fst (snd (syncReceipt sample_api sample_now sample_receipt
                                       (new_caches, 4))))) = None"
    by code_simp
  have d: "qboVendorId (vendor (fst (snd (syncReceipt sample_api sample_now sample_receipt
                                       (new_caches, 4))))) = None"
    by code_simp
  show ?thesis using a b c d by (simp add: sample_api_state4)
qed

lemma findMatchingTransaction_query_fails:
  "fst (queryPurchases api (date (transaction r)) l) = Inl e \<Longrightarrow>
     fst (findMatchingTransaction api r l) = None"
  by (cases "queryPurchases api (date (transaction r)) l")
     (simp add: findMatchingTransaction_def)

lemma match_and_write_query_fails:
  assumes "queryPurchases api (date (transaction r)) l = (Inl e, l1)"
    and "createExpense api r l1 = (Inr expense, l2)"
  shows "match_and_write api now r l =
     (Inr (addProcessingNote now
             (updateSyncStatus now r synced
                (no_details \<lparr> det_expenseId := Some (Id_txn expense) \<rparr>))
             (''Created new expense #'' @ Id_txn expense)), l2)"
  using assms by (simp add: match_and_write_def findMatchingTransaction_def)

text \<open>
  Claim C10. \<open>findMatchingTransaction\<close> has no throwing outcome: when the purchase query
  fails it returns nothing. The sync then takes the create branch, and when the expense
  is created it returns normally with the receipt synced, the new expense id recorded and
  no error message added.
\<close>

theorem C10_match_failure_swallowed:
  "(fst (queryPurchases api (date (transaction r)) l) = Inl e
      \<longrightarrow> fst (findMatchingTransaction api r l) = None)
   \<and> (resolve_entities api r cl = (r3, c3, l3)
        \<and> queryPurchases api (date (transaction r3)) l3 = (Inl e, l4)
        \<and> createExpense api r3 l4 = (Inr expense, l5)
      \<longrightarrow> fst (syncReceipt api now r cl) = Inr ()
          \<and> status (qboSync (fst (snd (syncReceipt api now r cl)))) = synced
          \<and> expenseId (qboSync (fst (snd (syncReceipt api now r cl))))
               = Some (Id_txn expense)
          \<and> sync_error (qboSync (fst (snd (syncReceipt api now r cl))))
               = sync_error (qboSync r))"
proof (intro conjI impI)
  assume "fst (queryPurchases api (date (transaction r)) l) = Inl e"
  then show "fst (findMatchingTransaction api r l) = None"
    by (rule findMatchingTransaction_query_fails)
next
  assume h: "resolve_entities api r cl = (r3, c3, l3)
        \<and> queryPurchases api (date (transaction r3)) l3 = (Inl e, l4)
        \<and> createExpense api r3 l4 = (Inr expense, l5)"
  then have res: "resolve_entities api r cl = (r3, c3, l3)" by simp
  have q: "qboSync r3 = qboSync r" using qboSync_resolve_entities[OF res] .
  have mw: "match_and_write api now r3 l3 =
     (Inr (addProcessingNote now
             (updateSyncStatus now r3 synced
                (no_details \<lparr> det_expenseId := Some (Id_txn expense) \<rparr>))
             (''Created new expense #'' @ Id_txn expense)), l5)"
    using h by (intro match_and_write_query_fails) auto
  show "fst (syncReceipt api now r cl) = Inr ()"
    by (simp add: syncReceipt_def res mw)
  show "status (qboSync (fst (snd (syncReceipt api now r cl)))) = synced"
    by (simp add: syncReceipt_def res mw qboSync_uploadAttachment qboSync_addProcessingNote
        qboSync_updateSyncStatus)
  show "expenseId (qboSync (fst (snd (syncReceipt api now r cl)))) = Some (Id_txn expense)"
    by (simp add: syncReceipt_def res mw qboSync_uploadAttachment qboSync_addProcessingNote
        qboSync_updateSyncStatus keep_or_def)
  show "sync_error (qboSync (fst (snd (syncReceipt api now r cl)))) = sync_error (qboSync r)"
    by (simp add: syncReceipt_def res mw qboSync_uploadAttachment qboSync_addProcessingNote
        qboSync_updateSyncStatus keep_or_def no_details_def q)
qed

text \<open>
  With the ledger in state 3 the purchase query fails and the expense creation succeeds:
  the sample receipt ends synced with expense 900.
\<close>

theorem C10_match_failure_swallowed_witness:
  "fst (queryPurchases sample_api (date (transaction sample_receipt)) 3)
     = Inl ''Request failed''
   \<and> fst (findMatchingTransaction sample_api sample_receipt 3) = None
   \<and> fst (syncReceipt sample_api sample_now sample_receipt (new_caches, 3)) = Inr ()
   \<and> status (qboSync (fst (snd (syncReceipt sample_api sample_now sample_receipt
                                   (new_caches, 3))))) = synced
   \<and> expenseId (qboSync (fst (snd (syncReceipt sample_api sample_now sample_receipt
                                      (new_caches, 3))))) = Some ''900''"
proof -
  let ?res = "resolve_entities sample_api sample_receipt (new_caches, 3)"
  have l3: "snd (snd ?res) = 3" by code_simp
  have res: "?res = (fst ?res, fst (snd ?res), 3)"
    using l3 by (metis prod.collapse)
  note t = C10_match_failure_swallowed[of sample_api sample_receipt 3 "''Request failed''"
      "(new_caches, 3)" "fst ?res" "fst (snd ?res)" 3 3
      "\<lparr> Id_txn = ''900'', TotalAmt = 11976 / 100, TxnDate = IsoDate 2025 11 23,
         CCNumber = None \<rparr>" 3 sample_now]
  show ?thesis using t res by (simp add: sample_api_state3)
qed

section \<open>Properties of the caches\<close>

lemma caches_le_refl: "caches_le c c"
  by (simp add: caches_le_def)

lemma caches_le_trans: "caches_le a b \<Longrightarrow> caches_le b c \<Longrightarrow> caches_le a c"
  unfolding caches_le_def by (blast intro: map_le_trans)

lemma map_le_new_key: "m k = None \<Longrightarrow> m \<subseteq>\<^sub>m m(k \<mapsto> v)"
  by (auto simp: map_le_def)

lemma caches_le_vendor:
  "vendorCache c k = None \<Longrightarrow> caches_le c (c \<lparr> vendorCache := (vendorCache c)(k \<mapsto> v) \<rparr>)"
  by (simp add: caches_le_def map_le_new_key)

lemma caches_le_customer:
  "customerCache c k = None \<Longrightarrow>
     caches_le c (c \<lparr> customerCache := (customerCache c)(k \<mapsto> v) \<rparr>)"
  by (simp add: caches_le_def map_le_new_key)

lemma caches_le_account:
  "accountCache c k = None \<Longrightarrow>
     caches_le c (c \<lparr> accountCache := (accountCache c)(k := w) \<rparr>)"
  by (auto simp: caches_le_def map_le_def)

lemma findOrCreateVendor_caches:
  "findOrCreateVendor api vn (c, l) = (v, c', l') \<Longrightarrow> caches_le c c'"
  by (auto simp: findOrCreateVendor_def caches_le_refl caches_le_vendor
      split: option.splits prod.splits sum.splits list.splits)

lemma findOrCreateCustomer_caches:
  "findOrCreateCustomer api jn (c, l) = (v, c', l') \<Longrightarrow> caches_le c c'"
  by (auto simp: findOrCreateCustomer_def caches_le_refl caches_le_customer
      split: option.splits prod.splits sum.splits list.splits if_splits)

lemma findAccount_caches:
  "findAccount api cn (c, l) = (v, c', l') \<Longrightarrow> caches_le c c'"
  by (auto simp: findAccount_def Let_def caches_le_refl caches_le_account
      split: option.splits prod.splits sum.splits list.splits if_splits)


lemma resolve_entities_caches:
  assumes "resolve_entities api r (c, l) = (r3, c3, l3)"
  shows "caches_le c c3"
proof -
  let ?vn = "or_else (qboVendorName (vendor r))
               (or_else (displayName (vendor r)) (vendor_name (vendor r)))"
  obtain v c1 l1 where a: "findOrCreateVendor api ?vn (c, l) = (v, c1, l1)"
    by (cases "findOrCreateVendor api ?vn (c, l)") auto
  define r1 where "r1 = (case v of None \<Rightarrow> r
     | Some ve \<Rightarrow> r \<lparr> vendor := (vendor r) \<lparr> qboVendorId := Some (Id_ent ve) \<rparr> \<rparr>)"
  obtain cu c2 l2 where b:
    "(if truthy_str (job_name (job r1)) then findCustomer api (job_name (job r1)) (c1, l1)
      else (None, c1, l1)) = (cu, c2, l2)"
    by (cases "if truthy_str (job_name (job r1))
               then findCustomer api (job_name (job r1)) (c1, l1) else (None, c1, l1)") auto
  define r2 where "r2 = (case cu of None \<Rightarrow> r1
     | Some cust \<Rightarrow> r1 \<lparr> job := (job r1) \<lparr> qboCustomerId := Some (Id_ent cust) \<rparr> \<rparr>)"
  obtain ac c3' l3' where d:
    "findAccount api (category_name (category r2)) (c2, l2) = (ac, c3', l3')"
    by (cases "findAccount api (category_name (category r2)) (c2, l2)") auto
  have "c3 = c3'"
    using assms a b d unfolding resolve_entities_def Let_def r1_def r2_def
    by simp
  moreover have "caches_le c c1" using a by (rule findOrCreateVendor_caches)
  moreover have "caches_le c1 c2"
    using b by (auto simp: findCustomer_def caches_le_refl
        dest: findOrCreateCustomer_caches split: if_splits)
  moreover have "caches_le c2 c3'" using d by (rule findAccount_caches)
  ultimately show ?thesis by (blast intro: caches_le_trans)
qed

lemma syncReceipt_caches:
  "syncReceipt api now r (c, l) = (out, r', c', l') \<Longrightarrow> caches_le c c'"
  by (auto simp: syncReceipt_def split: prod.splits sum.splits
      dest: resolve_entities_caches)

lemma sync_loop_caches:
  "sync_loop api now rs (sch, c, l, acc) = (sch', c', l', acc') \<Longrightarrow> caches_le c c'"
proof (induction rs arbitrary: sch c l acc)
  case Nil
  then show ?case by (simp add: caches_le_refl)
next
  case (Cons r rs)
  obtain out r1 c1 l1 where s: "syncReceipt api now r (c, l) = (out, r1, c1, l1)"
    by (cases "syncReceipt api now r (c, l)") auto
  have le1: "caches_le c c1" using s by (rule syncReceipt_caches)
  have "caches_le c1 c'"
  proof (cases out)
    case (Inl e)
    then show ?thesis using Cons.prems s Cons.IH by simp
  next
    case (Inr u)
    then show ?thesis using Cons.prems s Cons.IH by simp
  qed
  with le1 show ?case by (rule caches_le_trans)
qed

lemma runPipeline_caches:
  "runPipeline api now inp (sch, c, l) = (sch', c', l', rs) \<Longrightarrow> caches_le c c'"
  by (auto simp: runPipeline_def Let_def caches_le_refl
      split: if_splits sum.splits prod.splits dest: sync_loop_caches)

lemma cached_vendor_returned:
  "vendorCache c vn = Some v \<Longrightarrow> findOrCreateVendor api vn (c, l) = (Some v, c, l)"
  by (simp add: findOrCreateVendor_def)

lemma cached_customer_returned:
  "jn \<noteq> [] \<Longrightarrow> customerCache c jn = Some cu \<Longrightarrow>
     findOrCreateCustomer api (Some jn) (c, l) = (Some cu, c, l)"
  by (simp add: findOrCreateCustomer_def)

lemma cached_account_returned:
  "cn \<noteq> [] \<Longrightarrow> accountCache c cn = Some a \<Longrightarrow>
     findAccount api (Some cn) (c, l) = (Some a, c, l)"
  by (simp add: findAccount_def)

text \<open>
  Claim C8, as the code has it. \<open>clearCaches\<close> empties the three caches, but a pipeline run
  never calls it: every entry present before a run is present, unchanged, after it, and
  an entry present in a cache is returned by the resolver without any ledger call,
  whatever the ledger holds by then.
\<close>

theorem C8_caches_outlive_run:
  "vendorCache (clearCaches c0) = Map.empty
   \<and> customerCache (clearCaches c0) = Map.empty
   \<and> accountCache (clearCaches c0) = Map.empty
   \<and> (runPipeline api now inp (sch, c, l) = (sch', c', l', rs) \<longrightarrow> caches_le c c')
   \<and> (vendorCache c vn = Some v \<longrightarrow> findOrCreateVendor api vn (c, l) = (Some v, c, l))
   \<and> (jn \<noteq> [] \<and> customerCache c jn = Some cu
        \<longrightarrow> findOrCreateCustomer api (Some jn) (c, l) = (Some cu, c, l))
   \<and> (cn \<noteq> [] \<and> accountCache c cn = Some a
        \<longrightarrow> findAccount api (Some cn) (c, l) = (Some a, c, l))"
proof (intro conjI impI)
  assume "runPipeline api now inp (sch, c, l) = (sch', c', l', rs)"
  then show "caches_le c c'" by (rule runPipeline_caches)
qed (simp_all add: clearCaches_def cached_vendor_returned cached_customer_returned
    cached_account_returned)

lemma first_run_vendor:
  "vendorCache (fst (snd after_first_run)) (Some ''The Home Depot'')
     = Some \<lparr> Id_ent = ''41'', Name_ent = ''The Home Depot'' \<rparr>"
  by code_simp

lemma first_run_account:
  "accountCache (fst (snd after_first_run)) ''Materials & Supplies''
     = Some \<lparr> Id_ent = ''12'', Name_ent = ''Materials & Supplies'' \<rparr>"
  by code_simp

text \<open>
  The first sample run starts with empty caches and leaves the vendor and the account
  cached; the resolver then answers from the caches against any ledger state.
\<close>

theorem C8_caches_outlive_run_witness:
  "caches_le new_caches (fst (snd after_first_run))
   \<and> findOrCreateVendor sample_api (Some ''The Home Depot'') (fst (snd after_first_run), 2)
       = (Some \<lparr> Id_ent = ''41'', Name_ent = ''The Home Depot'' \<rparr>,
          fst (snd after_first_run), 2)
   \<and> findAccount sample_api (Some ''Materials & Supplies'') (fst (snd after_first_run), 0)
       = (Some \<lparr> Id_ent = ''12'', Name_ent = ''Materials & Supplies'' \<rparr>,
          fst (snd after_first_run), 0)
   \<and> findOrCreateCustomer sample_api (Some ''Smith House'') (caches_with_customer, 0)
       = (Some \<lparr> Id_ent = ''80'', Name_ent = ''Smith House'' \<rparr>, caches_with_customer, 0)"
proof -
  let ?c = "fst (snd after_first_run)"
  have e: "runPipeline sample_api sample_now sample_run (new_scheduler, new_caches, 1)
      = (fst after_first_run, ?c, fst (snd (snd after_first_run)),
         snd (snd (snd after_first_run)))"
    by (simp add: after_first_run_def)
  have k: "customerCache caches_with_customer ''Smith House''
      = Some \<lparr> Id_ent = ''80'', Name_ent = ''Smith House'' \<rparr>"
    by (simp add: caches_with_customer_def)
  note t1 = C8_caches_outlive_run[of new_caches sample_api sample_now sample_run
      new_scheduler new_caches 1 "fst after_first_run" ?c "fst (snd (snd after_first_run))"
      "snd (snd (snd after_first_run))"]
  note t2 = C8_caches_outlive_run[of new_caches sample_api sample_now sample_run
      new_scheduler ?c 2 new_scheduler ?c 2 "[]" "Some ''The Home Depot''"
      "\<lparr> Id_ent = ''41'', Name_ent = ''The Home Depot'' \<rparr>"]
  note t3 = C8_caches_outlive_run[of new_caches sample_api sample_now sample_run
      new_scheduler ?c 0 new_scheduler ?c 0 "[]" _ _ _ _
      "''Materials & Supplies''" "\<lparr> Id_ent = ''12'', Name_ent = ''Materials & Supplies'' \<rparr>"]
  note t4 = C8_caches_outlive_run[of new_caches sample_api sample_now sample_run
      new_scheduler caches_with_customer 0 new_scheduler caches_with_customer 0 "[]" _
      _ "''Smith House''" "\<lparr> Id_ent = ''80'', Name_ent = ''Smith House'' \<rparr>"]
  have a: "caches_le new_caches ?c" using t1 e by blast
  have b: "findOrCreateVendor sample_api (Some ''The Home Depot'') (?c, 2)
       = (Some \<lparr> Id_ent = ''41'', Name_ent = ''The Home Depot'' \<rparr>, ?c, 2)"
    using t2 first_run_vendor by blast
  have d: "findAccount sample_api (Some ''Materials & Supplies'') (?c, 0)
       = (Some \<lparr> Id_ent = ''12'', Name_ent = ''Materials & Supplies'' \<rparr>, ?c, 0)"
    using t3 first_run_account by simp
  have f: "findOrCreateCustomer sample_api (Some ''Smith House'') (caches_with_customer, 0)
       = (Some \<lparr> Id_ent = ''80'', Name_ent = ''Smith House'' \<rparr>, caches_with_customer, 0)"
    using t4 k by simp
  show ?thesis using a b d f by simp
qed

text \<open>
  The vendor cached by the first run is still in the cache during the second run, and
  the second run's receipt gets the cached vendor 41 although the ledger now answers the
  same query with vendor 77.
\<close>

theorem C8_cache_reused_across_runs:
  "vendorCache (fst (snd after_first_run)) (Some ''The Home Depot'')
     = Some \<lparr> Id_ent = ''41'', Name_ent = ''The Home Depot'' \<rparr>
   \<and> fst (queryVendor sample_api (Some ''The Home Depot'') 2)
       = Inr [\<lparr> Id_ent = ''77'', Name_ent = ''The Home Depot'' \<rparr>]
   \<and> map (\<lambda>r. qboVendorId (vendor r)) (snd (snd (snd after_second_run))) = [Some ''41'']
   \<and> vendorCache (fst (snd after_second_run)) (Some ''The Home Depot'')
       = Some \<lparr> Id_ent = ''41'', Name_ent = ''The Home Depot'' \<rparr>"
proof -
  have q: "fst (queryVendor sample_api (Some ''The Home Depot'') 2)
       = Inr [\<lparr> Id_ent = ''77'', Name_ent = ''The Home Depot'' \<rparr>]"
    by (simp add: sample_api_def)
  have m: "map (\<lambda>r. qboVendorId (vendor r)) (snd (snd (snd after_second_run)))
       = [Some ''41'']"
    by code_simp
  have w: "vendorCache (fst (snd after_second_run)) (Some ''The Home Depot'')
       = Some \<lparr> Id_ent = ''41'', Name_ent = ''The Home Depot'' \<rparr>"
    by code_simp
  show ?thesis using first_run_vendor q m w by simp
qed

end
